theory Spec2Isabelle
  imports Complex_Main "HOL-Library.Sublist" "HOL-Library.Multiset"
begin

section \<open>Python values used by the converter\<close>

subsection \<open>Exceptions\<close>

text \<open>
  The exceptions the modelled code can raise. \<open>SystemExit\<close> (raised by \<open>sys.exit\<close>) derives
  from \<open>BaseException\<close> only, so a handler \<open>except Exception\<close> does not catch it; every other
  constructor is a subclass of \<open>Exception\<close>.
\<close>

datatype error =
  SystemExit | EOFError | IndexError | KeyError | NameError | TypeError | ValueError |
  ZeroDivisionError

fun is_Exception :: "error \<Rightarrow> bool" where
  "is_Exception SystemExit = False"
| "is_Exception _ = True"


subsection \<open>Floating-point values\<close>

text \<open>
  A float is a double: a finite value, given as the rational it stands for, one of the two
  infinities, or NaN. The sign of zero is not modelled.
\<close>

datatype pyfloat = Fin rat | PInf | NInf | NaN

text \<open>
  Rounding a rational to the nearest double, ties to the even mantissa: \<open>ilog2 x\<close> is the
  exponent of a positive \<open>x\<close> (the integer \<open>e\<close> with \<open>2^e \<le> x < 2^(e+1)\<close>), a double has
  53 significant bits and no bit below \<open>2^-1074\<close>, and a result of magnitude \<open>2^1024\<close> or more
  (of exponent 1024 or more) overflows to an infinity.
\<close>

function bit_length :: "int \<Rightarrow> nat" where
  "bit_length n = (if n \<le> 0 then 0 else Suc (bit_length (n div 2)))"
  by pat_completeness auto

termination
  by (relation "measure nat") auto

declare bit_length.simps [simp del]

definition pow2 :: "int \<Rightarrow> rat" where
  "pow2 k = (if 0 \<le> k then 2 ^ nat k else 1 / 2 ^ nat (- k))"

definition ilog2 :: "rat \<Rightarrow> int" where
  "ilog2 x =
     (let k = int (bit_length (fst (quotient_of x))) - int (bit_length (snd (quotient_of x)))
      in if pow2 k \<le> x then k else k - 1)"

definition rint :: "rat \<Rightarrow> int" where
  "rint x =
     (let f = \<lfloor>x\<rfloor>; d = x - of_int f
      in if d < 1 / 2 then f else if 1 / 2 < d then f + 1 else if even f then f else f + 1)"

definition fl :: "rat \<Rightarrow> pyfloat" where
  "fl x =
     (if x = 0 then Fin 0
      else
        (let u = max (ilog2 \<bar>x\<bar> - 52) (- 1074);
             y = of_int (rint (x / pow2 u)) * pow2 u
         in if 1024 \<le> ilog2 \<bar>y\<bar> then (if 0 < x then PInf else NInf) else Fin y))"

text \<open>
  Multiplication, division and subtraction of doubles: the exact result, rounded. A
  division by zero is decided here as numpy decides it (an infinity, or NaN for
  \<open>0 / 0\<close>); the division of two Python floats raises instead, see \<open>num_div\<close>.
\<close>

fun fmul :: "pyfloat \<Rightarrow> pyfloat \<Rightarrow> pyfloat" where
  "fmul NaN _ = NaN"
| "fmul _ NaN = NaN"
| "fmul (Fin x) (Fin y) = fl (x * y)"
| "fmul (Fin x) PInf = (if x = 0 then NaN else if 0 < x then PInf else NInf)"
| "fmul (Fin x) NInf = (if x = 0 then NaN else if 0 < x then NInf else PInf)"
| "fmul PInf (Fin y) = (if y = 0 then NaN else if 0 < y then PInf else NInf)"
| "fmul NInf (Fin y) = (if y = 0 then NaN else if 0 < y then NInf else PInf)"
| "fmul PInf PInf = PInf"
| "fmul PInf NInf = NInf"
| "fmul NInf PInf = NInf"
| "fmul NInf NInf = PInf"

fun fdiv :: "pyfloat \<Rightarrow> pyfloat \<Rightarrow> pyfloat" where
  "fdiv NaN _ = NaN"
| "fdiv _ NaN = NaN"
| "fdiv (Fin x) (Fin y) =
     (if y = 0 then (if x = 0 then NaN else if 0 < x then PInf else NInf) else fl (x / y))"
| "fdiv (Fin x) PInf = Fin 0"
| "fdiv (Fin x) NInf = Fin 0"
| "fdiv PInf (Fin y) = (if 0 \<le> y then PInf else NInf)"
| "fdiv NInf (Fin y) = (if 0 \<le> y then NInf else PInf)"
| "fdiv PInf PInf = NaN"
| "fdiv PInf NInf = NaN"
| "fdiv NInf PInf = NaN"
| "fdiv NInf NInf = NaN"

fun fsub :: "pyfloat \<Rightarrow> pyfloat \<Rightarrow> pyfloat" where
  "fsub NaN _ = NaN"
| "fsub _ NaN = NaN"
| "fsub (Fin x) (Fin y) = fl (x - y)"
| "fsub (Fin x) PInf = NInf"
| "fsub (Fin x) NInf = PInf"
| "fsub PInf (Fin y) = PInf"
| "fsub NInf (Fin y) = NInf"
| "fsub PInf PInf = NaN"
| "fsub PInf NInf = PInf"
| "fsub NInf PInf = NInf"
| "fsub NInf NInf = NaN"

text \<open>
  \<open>round(x, ndigits)\<close> of a Python float is correctly rounded: the exact value of \<open>x\<close> is
  rounded to \<open>ndigits\<close> decimals, ties to the even digit, and the decimal result is
  converted to the nearest double. Infinities and NaN are returned unchanged.
\<close>

definition round_to :: "nat \<Rightarrow> rat \<Rightarrow> rat" where
  "round_to ndigits x = of_int (rint (x * 10 ^ ndigits)) / 10 ^ ndigits"

fun py_round :: "pyfloat \<Rightarrow> nat \<Rightarrow> pyfloat" where
  "py_round (Fin x) ndigits = fl (round_to ndigits x)"
| "py_round v ndigits = v"

text \<open>
  \<open>round(x, ndigits)\<close> of a numpy \<open>float64\<close> is numpy's \<open>round\<close>: the value is multiplied
  by \<open>10 ^ ndigits\<close>, rounded to the nearest integer with \<open>rint\<close> (ties to even), and
  divided by \<open>10 ^ ndigits\<close>, each step in double arithmetic.
\<close>

fun np_rint :: "pyfloat \<Rightarrow> pyfloat" where
  "np_rint (Fin x) = Fin (of_int (rint x))"
| "np_rint v = v"

definition np_round :: "pyfloat \<Rightarrow> nat \<Rightarrow> pyfloat" where
  "np_round v ndigits = fdiv (np_rint (fmul v (Fin (10 ^ ndigits)))) (Fin (10 ^ ndigits))"

subsection \<open>Python floats and numpy scalars\<close>

text \<open>
  The numbers of the feature extraction are Python floats (\<open>PyF\<close>: the mass, the \<open>nan\<close> that
  pandas returns as the maximum of an empty selection, a literal) or numpy \<open>float64\<close>
  scalars (\<open>NpF\<close>: an entry of a column, the maximum of a non-empty selection). An
  operation on two Python floats is Python's and gives a Python float; when an operand
  is a numpy scalar the operation is numpy's and gives a numpy scalar. The two differ in
  the division by zero, which raises ZeroDivisionError in Python and gives an infinity
  or NaN in numpy, and in \<open>round\<close>. The integer literals \<open>100\<close> and \<open>1000\<close> of the source
  behave in these operations as the Python floats of the same value.
\<close>

datatype pynum = PyF pyfloat | NpF pyfloat

fun num_val :: "pynum \<Rightarrow> pyfloat" where
  "num_val (PyF v) = v"
| "num_val (NpF v) = v"

fun is_py :: "pynum \<Rightarrow> bool" where
  "is_py (PyF v) = True"
| "is_py (NpF v) = False"

definition num_mul :: "pynum \<Rightarrow> pynum \<Rightarrow> pynum" where
  "num_mul a b =
     (if is_py a \<and> is_py b then PyF (fmul (num_val a) (num_val b))
      else NpF (fmul (num_val a) (num_val b)))"

definition num_sub :: "pynum \<Rightarrow> pynum \<Rightarrow> pynum" where
  "num_sub a b =
     (if is_py a \<and> is_py b then PyF (fsub (num_val a) (num_val b))
      else NpF (fsub (num_val a) (num_val b)))"

definition num_div :: "pynum \<Rightarrow> pynum \<Rightarrow> error + pynum" where
  "num_div a b =
     (if is_py a \<and> is_py b
      then (if num_val b = Fin 0 then Inl ZeroDivisionError
            else Inr (PyF (fdiv (num_val a) (num_val b))))
      else Inr (NpF (fdiv (num_val a) (num_val b))))"

fun num_round :: "pynum \<Rightarrow> nat \<Rightarrow> pynum" where
  "num_round (PyF v) ndigits = PyF (py_round v ndigits)"
| "num_round (NpF v) ndigits = NpF (np_round v ndigits)"

subsection \<open>Strings\<close>

text \<open>\<open>sub in s\<close> on strings: \<open>sub\<close> occurs in \<open>s\<close> as a contiguous run of characters.\<close>

fun py_in :: "string \<Rightarrow> string \<Rightarrow> bool" where
  "py_in sub [] = (sub = [])"
| "py_in sub (c # cs) = (prefix sub (c # cs) \<or> py_in sub cs)"

text \<open>\<open>s.split(sep)\<close> for a one-character separator; \<open>acc\<close> is the current token, reversed.\<close>

fun split_acc :: "char \<Rightarrow> string \<Rightarrow> string \<Rightarrow> string list" where
  "split_acc sep acc [] = [rev acc]"
| "split_acc sep acc (c # cs) =
     (if c = sep then rev acc # split_acc sep [] cs else split_acc sep (c # acc) cs)"

definition str_split :: "string \<Rightarrow> char \<Rightarrow> string list" where
  "str_split s sep = split_acc sep [] s"

text \<open>
  The decimal digits (what \<open>\d\<close> matches among one-byte characters), the value of a
  digit and of a string of digits.
\<close>

definition is_digit :: "char \<Rightarrow> bool" where
  "is_digit c = (c \<in> set ''0123456789'')"

definition digit_val :: "char \<Rightarrow> nat" where
  "digit_val c = of_char c - 48"

definition digits_val :: "string \<Rightarrow> nat" where
  "digits_val ds = foldl (\<lambda>n c. 10 * n + digit_val c) 0 ds"

text \<open>\<open>xs[i]\<close> for a non-negative index: IndexError when out of range.\<close>

definition list_index :: "'a list \<Rightarrow> nat \<Rightarrow> error + 'a" where
  "list_index xs i = (if i < length xs then Inr (xs ! i) else Inl IndexError)"

text \<open>
  \<open>input(prompt)\<close> reads the next line of standard input, here the list of lines still
  pending, and raises EOFError when there is none.
\<close>

definition input :: "string list \<Rightarrow> (error + string) \<times> string list" where
  "input stdin = (case stdin of [] \<Rightarrow> (Inl EOFError, []) | l # ls \<Rightarrow> (Inr l, ls))"

section \<open>Filename conventions (cam\_biologic\_data\_import.py)\<close>

subsection \<open>Protocol classification\<close>

text \<open>
  \<open>get_protocol_type\<close>. \<open>sys.exit(1)\<close> raises SystemExit, which the function's own
  \<open>except Exception\<close> lets through; an exception of \<open>input\<close> is logged and raised again, so
  it reaches the caller unchanged. The second component is the standard input left over.
\<close>

definition get_protocol_type :: "string \<Rightarrow> string list \<Rightarrow> (error + string) \<times> string list" where
  "get_protocol_type filename stdin =
     (if py_in ''OCV'' filename then (Inl SystemExit, stdin)
      else if py_in ''Life'' filename then (Inr ''CL'', stdin)
      else if py_in ''Formation-Capacity-Check'' filename then (Inr ''FC'', stdin)
      else if py_in ''Formation'' filename then (Inr ''F'', stdin)
      else input stdin)"

subsection \<open>Mass from the filename\<close>

text \<open>
  \<open>extract_mass_from_filename\<close>. Python's \<open>float(str)\<close> is a parameter \<open>float\<close> of the
  model: \<open>None\<close> stands for the ValueError it raises on a string that is no float literal.
  The mass is a Python float.
  The bare \<open>except:\<close> catches whatever the \<open>try\<close> body raises.
\<close>

definition mass_token :: "(string \<Rightarrow> pyfloat option) \<Rightarrow> string \<Rightarrow> error + pyfloat" where
  "mass_token float filename =
     (case list_index (str_split filename CHR ''_'') 1 of
        Inl e \<Rightarrow> Inl e
      | Inr tok \<Rightarrow> (case float tok of None \<Rightarrow> Inl ValueError | Some v \<Rightarrow> Inr v))"

definition extract_mass_from_filename :: "(string \<Rightarrow> pyfloat option) \<Rightarrow> string \<Rightarrow> pyfloat" where
  "extract_mass_from_filename float filename =
     (case mass_token float filename of Inl e \<Rightarrow> Fin 1 | Inr mass \<Rightarrow> mass)"

text \<open>
  A fragment of \<open>float(str)\<close> for the examples: an unsigned decimal literal
  \<open>digits[.digits]\<close> with at least one digit before the point, converted to the nearest
  double.
\<close>

definition float_decimal :: "string \<Rightarrow> pyfloat option" where
  "float_decimal s =
     (let ip = takeWhile is_digit s; r = dropWhile is_digit s
      in if ip = [] then None
         else (case r of
                 [] \<Rightarrow> Some (fl (of_nat (digits_val ip)))
               | c # fp \<Rightarrow>
                   if c = CHR ''.'' \<and> list_all is_digit fp
                   then Some (fl (of_nat (digits_val (ip @ fp)) / 10 ^ length fp))
                   else None))"

subsection \<open>Sample identifiers\<close>

text \<open>
  The pattern \<open>^(.*?)(CC-\d{1,2})\<close> under \<open>re.match\<close>. The lazy first group is extended
  one character at a time (\<open>.\<close> matches any character but a newline) until the second
  group matches at the current position; the second group is \<open>CC-\<close> and one digit, and a
  second digit when one follows. \<open>acc\<close> is the first group so far, reversed. The result
  is the pair of captured groups.
\<close>

definition match_CC_digits :: "string \<Rightarrow> string option" where
  "match_CC_digits s =
     (if prefix ''CC-'' s
      then (case drop 3 s of
              [] \<Rightarrow> None
            | d1 # r \<Rightarrow>
                if is_digit d1
                then (case r of
                        [] \<Rightarrow> Some (''CC-'' @ [d1])
                      | d2 # _ \<Rightarrow>
                          if is_digit d2 then Some (''CC-'' @ [d1, d2]) else Some (''CC-'' @ [d1]))
                else None)
      else None)"

fun match_CC :: "string \<Rightarrow> string \<Rightarrow> (string \<times> string) option" where
  "match_CC acc [] = None"
| "match_CC acc (c # cs) =
     (case match_CC_digits (c # cs) of
        Some g2 \<Rightarrow> Some (rev acc, g2)
      | None \<Rightarrow> if c = CHR 0x0A then None else match_CC (c # acc) cs)"

text \<open>\<open>separator.join(groups)\<close> for the two groups of a match.\<close>

definition join_groups :: "string \<Rightarrow> string \<times> string \<Rightarrow> string" where
  "join_groups separator groups = fst groups @ separator @ snd groups"

text \<open>
  \<open>process_filenames_CC\<close> branches on the type of its argument. For a single filename
  it returns \<open>match[0]\<close>, the whole matched text, or \<open>None\<close>; for a list it returns the
  joined groups of the entries that match.
\<close>

definition process_filenames_CC :: "string \<Rightarrow> string option" where
  "process_filenames_CC filename =
     (case match_CC [] filename of
        Some groups \<Rightarrow> Some (fst groups @ snd groups)
      | None \<Rightarrow> None)"

definition process_filenames_CC_list :: "string list \<Rightarrow> string list" where
  "process_filenames_CC_list filename =
     concat (map (\<lambda>f. case match_CC [] f of
                          Some groups \<Rightarrow> [join_groups ''-'' groups]
                        | None \<Rightarrow> []) filename)"

text \<open>
  The fallback of the batch loop, \<open>re.compile(r'(.*?)-CC').findall(filename)[0]\<close>: the
  first element of \<open>findall\<close> is the group of the leftmost match, and indexing the empty
  list raises IndexError. \<open>match_before_CC\<close> tries the pattern at one start position,
  \<open>search_before_CC\<close> tries the start positions from left to right.
\<close>

fun match_before_CC :: "string \<Rightarrow> string \<Rightarrow> string option" where
  "match_before_CC acc [] = None"
| "match_before_CC acc (c # cs) =
     (if prefix ''-CC'' (c # cs) then Some (rev acc)
      else if c = CHR 0x0A then None
      else match_before_CC (c # acc) cs)"

fun search_before_CC :: "string \<Rightarrow> string option" where
  "search_before_CC [] = None"
| "search_before_CC (c # cs) =
     (case match_before_CC [] (c # cs) of
        Some g \<Rightarrow> Some g
      | None \<Rightarrow> search_before_CC cs)"

text \<open>
  \<open>get_file_path\<close> returns \<open>None\<close> (the dialog was cancelled), a single path or a list of
  paths, and \<open>filter_OCV_files\<close> branches on the type of what it is given: a single path
  that contains \<open>OCV\<close> becomes \<open>None\<close>, a list loses the paths that contain \<open>OCV\<close>, and
  anything else raises TypeError.
\<close>

datatype selection = Nothing | OneFile string | Files "string list"

definition filter_OCV_files :: "selection \<Rightarrow> error + selection" where
  "filter_OCV_files input_filenames =
     (case input_filenames of
        OneFile s \<Rightarrow> Inr (if \<not> py_in ''OCV'' s then OneFile s else Nothing)
      | Files l \<Rightarrow> Inr (Files (filter (\<lambda>s. \<not> py_in ''OCV'' s) l))
      | Nothing \<Rightarrow> Inl TypeError)"

section \<open>Cycling records and feature sets\<close>

text \<open>
  One row of the cloud-format table the reader produces, with the columns the feature
  extraction reads; \<open>voltage\<close> and \<open>step_amp_hours\<close> are the exact values of the doubles in
  the table. A table is the list of its rows in acquisition order; the variable
  \<open>cloud_data_df\<close> of the batch loop is \<open>None\<close> when the reader failed, and subscripting
  \<open>None\<close> raises TypeError.
\<close>

record row =
  step_type :: string
  step_number :: int
  cycle :: int
  voltage :: rat
  step_amp_hours :: rat

type_synonym dataframe = "row list"

text \<open>The feature dictionary: feature name to value.\<close>

type_synonym features = "string \<rightharpoonup> pynum"

subsection \<open>The pandas and numpy operations used\<close>

text \<open>\<open>df[name] == value\<close>: the boolean column of the comparison.\<close>

definition col_eq :: "(row \<Rightarrow> 'a) \<Rightarrow> 'a \<Rightarrow> dataframe \<Rightarrow> bool list" where
  "col_eq col v df = map (\<lambda>r. col r = v) df"

text \<open>
  \<open>np.logical_and(x1, x2, out)\<close>: the ufunc has two inputs. A third positional argument
  is \<open>out\<close>, the array the result is written to (and that is returned): what it held
  before is not read.
\<close>

definition logical_and :: "bool list \<Rightarrow> bool list \<Rightarrow> bool list option \<Rightarrow> bool list" where
  "logical_and x1 x2 out = map2 (\<and>) x1 x2"

text \<open>\<open>df[idx]\<close> for a boolean mask: the rows whose mask entry is true, in order.\<close>

definition mask_select :: "'a list \<Rightarrow> bool list \<Rightarrow> 'a list" where
  "mask_select df idx = map fst (filter snd (zip df idx))"

text \<open>
  \<open>series.iloc[-1]\<close>: the last entry, a numpy scalar; IndexError on an empty series.
\<close>

definition iloc_last :: "rat list \<Rightarrow> error + pynum" where
  "iloc_last xs = (if xs = [] then Inl IndexError else Inr (NpF (Fin (last xs))))"

text \<open>
  \<open>series.max()\<close>: the greatest entry, a numpy scalar; for an empty series the Python
  float \<open>nan\<close>.
\<close>

fun series_max :: "rat list \<Rightarrow> pynum" where
  "series_max [] = PyF NaN"
| "series_max (x # xs) = NpF (Fin (fold max xs x))"

text \<open>
  \<open>df.groupby(["cycle"]).agg(discharge_step_amp_hours=("step_amp_hours", "max")).reset_index()\<close>:
  one row per cycle number that occurs, in increasing order of the cycle number, with the
  greatest \<open>step_amp_hours\<close> of the cycle's rows.
\<close>

definition group_rows :: "dataframe \<Rightarrow> int \<Rightarrow> (int \<times> rat) list" where
  "group_rows df c =
     (case map step_amp_hours (filter (\<lambda>r. cycle r = c) df) of
        [] \<Rightarrow> []
      | x # xs \<Rightarrow> [(c, fold max xs x)])"

definition groupby_cycle_max :: "dataframe \<Rightarrow> (int \<times> rat) list" where
  "groupby_cycle_max df = concat (map (group_rows df) (sort (remdups (map cycle df))))"

text \<open>\<open>str(n)\<close> for an integer, as an f-string formats it.\<close>

fun str_nat :: "nat \<Rightarrow> string" where
  "str_nat n =
     (if n < 10 then [''0123456789'' ! n] else str_nat (n div 10) @ [''0123456789'' ! (n mod 10)])"

declare str_nat.simps [simp del]

definition str_int :: "int \<Rightarrow> string" where
  "str_int i = (if i < 0 then CHR ''-'' # str_nat (nat (- i)) else str_nat (nat i))"

text \<open>
  A \<open>for\<close> loop whose body may raise: the first exception ends the loop and the function
  around it.
\<close>

fun for_each :: "('a \<Rightarrow> 's \<Rightarrow> error + 's) \<Rightarrow> 'a list \<Rightarrow> 's \<Rightarrow> error + 's" where
  "for_each body [] s = Inr s"
| "for_each body (x # xs) s =
     (case body x s of Inl e \<Rightarrow> Inl e | Inr s' \<Rightarrow> for_each body xs s')"

section \<open>Feature extraction (features.py)\<close>

definition retention_key :: "int \<Rightarrow> string" where
  "retention_key n = ''Retention Cycle '' @ str_int n @ '' (%)''"

definition difference_key :: "int \<Rightarrow> string" where
  "difference_key n = ''Retention Difference for '' @ str_int n @ '' (%)''"

text \<open>
  \<open>Features.extract_ocv\<close>. The call passes three arrays to \<open>np.logical_and\<close>, so the
  comparison of the cycle column arrives as \<open>out\<close>.
\<close>

definition extract_ocv :: "dataframe option \<Rightarrow> features \<Rightarrow> error + features" where
  "extract_ocv cloud features =
     (case cloud of
        None \<Rightarrow> Inl TypeError
      | Some df \<Rightarrow>
          (let idx = logical_and (col_eq step_type ''REST'' df) (col_eq step_number 0 df)
                       (Some (col_eq cycle 1 df))
           in case iloc_last (map voltage (mask_select df idx)) of
                Inl e \<Rightarrow> Inl e
              | Inr v \<Rightarrow>
                  Inr (features(''Open Circuit Potential (V)'' \<mapsto> num_round v 3))))"

text \<open>
  \<open>Features.extract_initial_charge_capacity\<close> and its discharge twin; \<open>mass\<close> is a Python
  float. The specific capacity is computed before the dictionary is touched, and its
  division raises ZeroDivisionError when the selection is empty (its maximum is the
  Python float \<open>nan\<close>) and the mass is 0.0.
\<close>

definition initial_capacity ::
  "string \<Rightarrow> string \<Rightarrow> string \<Rightarrow> dataframe option \<Rightarrow> features \<Rightarrow> pyfloat \<Rightarrow> error + features" where
  "initial_capacity step key specific_key cloud features mass =
     (case cloud of
        None \<Rightarrow> Inl TypeError
      | Some df \<Rightarrow>
          (let idx = logical_and (col_eq step_type step df) (col_eq cycle 1 df) None;
               capacity = series_max (map step_amp_hours (mask_select df idx))
           in case num_div (num_mul capacity (PyF (Fin 1000))) (PyF mass) of
                Inl e \<Rightarrow> Inl e
              | Inr specific_capacity \<Rightarrow>
                  Inr (features(key \<mapsto> num_round (num_mul capacity (PyF (Fin 1000))) 3,
                                specific_key \<mapsto> num_round specific_capacity 1))))"

definition extract_initial_charge_capacity ::
  "dataframe option \<Rightarrow> features \<Rightarrow> pyfloat \<Rightarrow> error + features" where
  "extract_initial_charge_capacity =
     initial_capacity ''CHARGE'' ''Initial Charge Capacity (mAh)''
       ''Initial Specific Charge Capacity (mAh/g) ''"

definition extract_initial_discharge_capacity ::
  "dataframe option \<Rightarrow> features \<Rightarrow> pyfloat \<Rightarrow> error + features" where
  "extract_initial_discharge_capacity =
     initial_capacity ''DISCHARGE'' ''Initial Discharge Capacity (mAh)''
       ''Initial Specific Discharge capacity (mAh/g)''"

text \<open>\<open>features[key]\<close>: KeyError when the key is missing.\<close>

definition dict_get :: "features \<Rightarrow> string \<Rightarrow> error + pynum" where
  "dict_get features key = (case features key of None \<Rightarrow> Inl KeyError | Some v \<Rightarrow> Inr v)"

text \<open>
  \<open>Features.extract_initial_coulombic_efficiency\<close>: the quotient is formed first and then
  multiplied by 100; the table is not read.
\<close>

definition extract_initial_coulombic_efficiency ::
  "dataframe option \<Rightarrow> features \<Rightarrow> error + features" where
  "extract_initial_coulombic_efficiency cloud features =
     (case dict_get features ''Initial Discharge Capacity (mAh)'' of
        Inl e \<Rightarrow> Inl e
      | Inr initial_discharge_capacity \<Rightarrow>
          (case dict_get features ''Initial Charge Capacity (mAh)'' of
             Inl e \<Rightarrow> Inl e
           | Inr initial_charge_capacity \<Rightarrow>
               (case num_div initial_discharge_capacity initial_charge_capacity of
                  Inl e \<Rightarrow> Inl e
                | Inr ratio \<Rightarrow>
                    Inr (features(''Initial Coulombic Efficiency (%)'' \<mapsto>
                           num_round (num_mul ratio (PyF (Fin 100))) 1)))))"

text \<open>
  The table \<open>df_discharge\<close> both per-cycle extractions build: the greatest
  \<open>step_amp_hours\<close> of the DISCHARGE rows of each cycle after the first.
\<close>

definition df_discharge :: "dataframe \<Rightarrow> (int \<times> rat) list" where
  "df_discharge df =
     filter (\<lambda>(c, m). 1 < c)
       (groupby_cycle_max (mask_select df (col_eq step_type ''DISCHARGE'' df)))"

text \<open>\<open>df_discharge[df_discharge["cycle"] == n]["discharge_step_amp_hours"].max()\<close> for the
  cycle number \<open>n\<close> of the loop.\<close>

definition discharge_capacity_of :: "(int \<times> rat) list \<Rightarrow> int \<Rightarrow> pynum" where
  "discharge_capacity_of dfd n = series_max (map snd (filter (\<lambda>(c, m). c = n) dfd))"

text \<open>
  \<open>Features.extract_capacities_for_cycles\<close>: the loop body, then the function. The body
  computes \<open>discharge_capacity * 100 / (initial_discharge_capacity / 1000)\<close>.
\<close>

definition retention_step ::
  "(int \<times> rat) list \<Rightarrow> pynum \<Rightarrow> int \<Rightarrow> features \<Rightarrow> error + features" where
  "retention_step dfd initial_discharge_capacity n features =
     (let discharge_capacity = discharge_capacity_of dfd n
      in case num_div initial_discharge_capacity (PyF (Fin 1000)) of
           Inl e \<Rightarrow> Inl e
         | Inr divisor \<Rightarrow>
             (case num_div (num_mul discharge_capacity (PyF (Fin 100))) divisor of
                Inl e \<Rightarrow> Inl e
              | Inr retention \<Rightarrow> Inr (features(retention_key n \<mapsto> num_round retention 1))))"

definition extract_capacities_for_cycles ::
  "dataframe option \<Rightarrow> features \<Rightarrow> int list \<Rightarrow> error + features" where
  "extract_capacities_for_cycles cloud features cycles =
     (case cloud of
        None \<Rightarrow> Inl TypeError
      | Some df \<Rightarrow>
          (case dict_get features ''Initial Discharge Capacity (mAh)'' of
             Inl e \<Rightarrow> Inl e
           | Inr initial_discharge_capacity \<Rightarrow>
               for_each (retention_step (df_discharge df) initial_discharge_capacity)
                 cycles features))"

text \<open>
  \<open>Features.extract_discharge_capacity_difference\<close>: the loop carries the dictionary and
  \<open>prev_discharge_capacity\<close>. The body computes
  \<open>(discharge_capacity - prev_discharge_capacity) / (prev_discharge_capacity / 100)\<close>.
\<close>

definition difference_step ::
  "(int \<times> rat) list \<Rightarrow> int \<Rightarrow> features \<times> pynum \<Rightarrow> error + features \<times> pynum" where
  "difference_step dfd n state =
     (let features = fst state; prev_discharge_capacity = snd state;
          discharge_capacity = discharge_capacity_of dfd n
      in case num_div prev_discharge_capacity (PyF (Fin 100)) of
           Inl e \<Rightarrow> Inl e
         | Inr divisor \<Rightarrow>
             (case num_div (num_sub discharge_capacity prev_discharge_capacity) divisor of
                Inl e \<Rightarrow> Inl e
              | Inr discharge_capacity_difference \<Rightarrow>
                  Inr (features(difference_key n \<mapsto> num_round discharge_capacity_difference 3),
                       discharge_capacity)))"

definition extract_discharge_capacity_difference ::
  "dataframe option \<Rightarrow> features \<Rightarrow> int list \<Rightarrow> error + features" where
  "extract_discharge_capacity_difference cloud features cycles =
     (case cloud of
        None \<Rightarrow> Inl TypeError
      | Some df \<Rightarrow>
          (let dfd = df_discharge df;
               prev_discharge_capacity = discharge_capacity_of dfd 2
           in case for_each (difference_step dfd) cycles (features, prev_discharge_capacity) of
                Inl e \<Rightarrow> Inl e
              | Inr state \<Rightarrow> Inr (fst state)))"

text \<open>
  The discharge capacity of cycle \<open>n\<close> in the specification's words: the greatest
  \<open>step_amp_hours\<close> of the DISCHARGE rows of that cycle (\<open>nan\<close> when there is none). It is
  compared with what the code looks up in \<open>df_discharge\<close>.
\<close>

definition cycle_discharge_capacity :: "dataframe \<Rightarrow> int \<Rightarrow> pynum" where
  "cycle_discharge_capacity df n =
     series_max (map step_amp_hours (filter (\<lambda>r. step_type r = ''DISCHARGE'' \<and> cycle r = n) df))"

text \<open>
  What the two loops look up for a requested cycle number (lemma
  \<open>discharge_capacity_of_df_discharge\<close>): the discharge capacity of the cycle when the
  number is greater than 1, and \<open>nan\<close>, as for a cycle without rows, otherwise.
\<close>

definition requested_capacity :: "dataframe \<Rightarrow> int \<Rightarrow> pynum" where
  "requested_capacity df n = (if 1 < n then cycle_discharge_capacity df n else PyF NaN)"

text \<open>
  The values the two loops store, as functions of the capacities: the retention
  \<open>capacity * 100 / (initial / 1000)\<close> rounded to one decimal, and the change
  \<open>(capacity - previous) / (previous / 100)\<close> rounded to three decimals. The result is a
  Python float when both operands are, and a numpy scalar otherwise.
\<close>

definition retention_value :: "pynum \<Rightarrow> pynum \<Rightarrow> pynum" where
  "retention_value initial capacity =
     num_round
       ((if is_py capacity \<and> is_py initial then PyF else NpF)
          (fdiv (fmul (num_val capacity) (Fin 100)) (fdiv (num_val initial) (Fin 1000)))) 1"

definition percent_change :: "pynum \<Rightarrow> pynum \<Rightarrow> pynum" where
  "percent_change previous capacity =
     num_round
       ((if is_py capacity \<and> is_py previous then PyF else NpF)
          (fdiv (fsub (num_val capacity) (num_val previous))
                (fdiv (num_val previous) (Fin 100)))) 3"

text \<open>
  The value the coulombic efficiency stores, as a function of the two capacities:
  \<open>(discharge / charge) * 100\<close> rounded to one decimal, the quotient first.
\<close>

definition coulombic_efficiency :: "pynum \<Rightarrow> pynum \<Rightarrow> pynum" where
  "coulombic_efficiency discharge charge =
     num_round
       ((if is_py discharge \<and> is_py charge then PyF else NpF)
          (fmul (fdiv (num_val discharge) (num_val charge)) (Fin 100))) 1"

text \<open>
  The stored initial capacity is a Python float and \<open>initial / 1000\<close>, the divisor of the
  retention, is 0.0.
\<close>

definition python_zero_divisor :: "pynum \<Rightarrow> bool" where
  "python_zero_divisor initial = (is_py initial \<and> fdiv (num_val initial) (Fin 1000) = Fin 0)"


text \<open>
  The dictionary after the drift loop, in the specification's words: each requested
  cycle is paired with the cycle requested just before it, the first one with cycle 2,
  and gets the change of its capacity against the capacity of that cycle.
\<close>

definition drift_updates :: "(int \<Rightarrow> pynum) \<Rightarrow> int list \<Rightarrow> features \<Rightarrow> features" where
  "drift_updates capacity cycles features =
     fold (\<lambda>pair f. f(difference_key (snd pair) \<mapsto>
                          percent_change (capacity (fst pair)) (capacity (snd pair))))
       (zip (2 # cycles) cycles) features"

section \<open>Feature sets per protocol (extract\_electrochemical\_features.py)\<close>

text \<open>
  Each function starts from an empty dictionary, which the extraction steps fill in
  turn; an exception of a step ends the function.
\<close>

definition extract_formation_features ::
  "string \<Rightarrow> dataframe option \<Rightarrow> pyfloat \<Rightarrow> error + features" where
  "extract_formation_features filename cloud_data_df mass =
     (case extract_ocv cloud_data_df Map.empty of
        Inl e \<Rightarrow> Inl e
      | Inr f1 \<Rightarrow>
     (case extract_initial_charge_capacity cloud_data_df f1 mass of
        Inl e \<Rightarrow> Inl e
      | Inr f2 \<Rightarrow>
     (case extract_initial_discharge_capacity cloud_data_df f2 mass of
        Inl e \<Rightarrow> Inl e
      | Inr f3 \<Rightarrow> extract_initial_coulombic_efficiency cloud_data_df f3)))"

definition extract_qc_cycle_life_features ::
  "string \<Rightarrow> dataframe option \<Rightarrow> pyfloat \<Rightarrow> error + features" where
  "extract_qc_cycle_life_features filename cloud_data_df mass =
     (case extract_initial_charge_capacity cloud_data_df Map.empty mass of
        Inl e \<Rightarrow> Inl e
      | Inr f1 \<Rightarrow>
     (case extract_initial_discharge_capacity cloud_data_df f1 mass of
        Inl e \<Rightarrow> Inl e
      | Inr f2 \<Rightarrow> extract_capacities_for_cycles cloud_data_df f2 [50]))"

definition extract_all_cycle_life_features ::
  "string \<Rightarrow> dataframe option \<Rightarrow> pyfloat \<Rightarrow> error + features" where
  "extract_all_cycle_life_features filename cloud_data_df mass =
     (case extract_initial_charge_capacity cloud_data_df Map.empty mass of
        Inl e \<Rightarrow> Inl e
      | Inr f1 \<Rightarrow>
     (case extract_initial_discharge_capacity cloud_data_df f1 mass of
        Inl e \<Rightarrow> Inl e
      | Inr f2 \<Rightarrow>
     (case extract_capacities_for_cycles cloud_data_df f2 [2..50] of
        Inl e \<Rightarrow> Inl e
      | Inr f3 \<Rightarrow> extract_discharge_capacity_difference cloud_data_df f3 [2..50])))"

section \<open>The batch loop (main.py)\<close>

text \<open>
  What the loop reads from outside the repository: \<open>Path(path).stem\<close>, the reader behind
  \<open>convert_file_to_cloud\<close> (which returns \<open>None\<close> when reading fails) and \<open>float\<close>.
\<close>

record env =
  path_stem :: "string \<Rightarrow> string"
  convert_file_to_cloud :: "string \<Rightarrow> dataframe option"
  py_float :: "string \<Rightarrow> pyfloat option"

text \<open>
  The two messages the loop logs per file: the error message of the handler and the
  message that ends a successful iteration.
\<close>

datatype log_entry = Error_processing string error | Extraction_finished string

fun is_error_entry :: "log_entry \<Rightarrow> bool" where
  "is_error_entry (Error_processing filename e) = True"
| "is_error_entry (Extraction_finished filename) = False"

text \<open>
  The variables the loop updates: the two tables, as the lists of their rows (each
  \<open>_append\<close> adds the one-row frame of a feature dictionary), the list of sample IDs,
  the lines of standard input not yet read, and the log.
\<close>

record state =
  qc_sample_summary :: "features list"
  cycle_life_sample_data :: "features list"
  sample_ID_list :: "string list"
  pending_input :: "string list"
  logged :: "log_entry list"

text \<open>The sample ID of a filename: the primary pattern, then the fallback.\<close>

definition resolve_sample_ID :: "string \<Rightarrow> error + string" where
  "resolve_sample_ID filename =
     (case process_filenames_CC filename of
        Some sample_ID \<Rightarrow> Inr sample_ID
      | None \<Rightarrow>
          (case search_before_CC filename of
             None \<Rightarrow> Inl IndexError
           | Some sample_ID \<Rightarrow> Inr sample_ID))"

text \<open>
  The body of the \<open>try\<close> statement for one path. The first component is the exception
  that ended it, if any; the second is the state as the statements executed before
  have left it.
\<close>

definition process_file :: "env \<Rightarrow> string \<Rightarrow> state \<Rightarrow> error option \<times> state" where
  "process_file ev path st =
     (let filename = path_stem ev path;
          cloud_data_df = convert_file_to_cloud ev path
      in case resolve_sample_ID filename of
           Inl e \<Rightarrow> (Some e, st)
         | Inr sample_ID \<Rightarrow>
             (let mass = extract_mass_from_filename (py_float ev) filename;
                  classified = get_protocol_type filename (pending_input st);
                  st1 = st\<lparr>pending_input := snd classified\<rparr>
              in case fst classified of
                   Inl e \<Rightarrow> (Some e, st1)
                 | Inr protocol_type \<Rightarrow>
                     if protocol_type \<in> set [''F'', ''FC'']
                     then (case extract_formation_features filename cloud_data_df mass of
                             Inl e \<Rightarrow> (Some e, st1)
                           | Inr features_dict \<Rightarrow>
                               (None,
                                st1\<lparr>qc_sample_summary := qc_sample_summary st1 @ [features_dict],
                                    sample_ID_list := sample_ID_list st1 @ [sample_ID],
                                    logged := logged st1 @ [Extraction_finished filename]\<rparr>))
                     else if protocol_type = ''CL''
                     then (case extract_qc_cycle_life_features filename cloud_data_df mass of
                             Inl e \<Rightarrow> (Some e, st1)
                           | Inr features_qc_dict \<Rightarrow>
                               (let st2 = st1\<lparr>qc_sample_summary :=
                                                 qc_sample_summary st1 @ [features_qc_dict]\<rparr>
                                in case extract_all_cycle_life_features filename cloud_data_df mass of
                                     Inl e \<Rightarrow> (Some e, st2)
                                   | Inr features_dict \<Rightarrow>
                                       (None,
                                        st2\<lparr>cycle_life_sample_data :=
                                                cycle_life_sample_data st2 @ [features_dict],
                                            sample_ID_list := sample_ID_list st2 @ [sample_ID],
                                            logged := logged st2 @ [Extraction_finished filename]\<rparr>)))
                     else (None,
                           st1\<lparr>sample_ID_list := sample_ID_list st1 @ [sample_ID],
                               logged := logged st1 @ [Extraction_finished filename]\<rparr>)))"

text \<open>
  The loop with its handler \<open>except Exception\<close>: an exception is logged and the loop goes
  on with the next path; SystemExit is not an \<open>Exception\<close> and ends the run.
\<close>

fun main_loop :: "env \<Rightarrow> string list \<Rightarrow> state \<Rightarrow> error + state" where
  "main_loop ev [] st = Inr st"
| "main_loop ev (path # paths) st =
     (case process_file ev path st of
        (None, st') \<Rightarrow> main_loop ev paths st'
      | (Some e, st') \<Rightarrow>
          if is_Exception e
          then main_loop ev paths (st'\<lparr>logged := logged st' @ [Error_processing (path_stem ev path) e]\<rparr>)
          else Inl e)"

text \<open>The state before the loop; \<open>input_lines\<close> is what the user will type.\<close>

definition initial_state :: "string list \<Rightarrow> state" where
  "initial_state input_lines =
     \<lparr>qc_sample_summary = [], cycle_life_sample_data = [], sample_ID_list = [],
      pending_input = input_lines, logged = []\<rparr>"

text \<open>
  \<open>main.py\<close> from the selection of the files to the end of the loop. A single selected
  path that contains \<open>OCV\<close> is filtered to \<open>None\<close> and the loop runs over \<open>[None]\<close>:
  \<open>Path(None)\<close> raises TypeError inside the \<open>try\<close>, and the handler's message reads the
  variable \<open>filename\<close>, which no statement has assigned yet. That is a NameError raised
  in the handler, which nothing catches.
\<close>

definition main_run :: "env \<Rightarrow> selection \<Rightarrow> string list \<Rightarrow> error + state" where
  "main_run ev mpr_file_path_unfiltered input_lines =
     (case filter_OCV_files mpr_file_path_unfiltered of
        Inl e \<Rightarrow> Inl e
      | Inr Nothing \<Rightarrow> Inl NameError
      | Inr (OneFile path) \<Rightarrow> main_loop ev [path] (initial_state input_lines)
      | Inr (Files paths) \<Rightarrow> main_loop ev paths (initial_state input_lines))"

section \<open>Example inputs\<close>

text \<open>Two rest rows at step 0: the first in cycle 1, the second in cycle 2.\<close>

definition ocv_rows :: dataframe where
  "ocv_rows =
     [\<lparr>step_type = ''REST'', step_number = 0, cycle = 1, voltage = 3, step_amp_hours = 0\<rparr>,
      \<lparr>step_type = ''REST'', step_number = 0, cycle = 2, voltage = 4, step_amp_hours = 0\<rparr>]"

text \<open>A first cycle with a rest, two charge samples and one discharge sample.\<close>

definition capacity_rows :: dataframe where
  "capacity_rows =
     [\<lparr>step_type = ''REST'', step_number = 0, cycle = 1, voltage = 3, step_amp_hours = 0\<rparr>,
      \<lparr>step_type = ''CHARGE'', step_number = 1, cycle = 1, voltage = 4, step_amp_hours = 1 / 8\<rparr>,
      \<lparr>step_type = ''CHARGE'', step_number = 1, cycle = 1, voltage = 17 / 4, step_amp_hours = 1 / 4\<rparr>,
      \<lparr>step_type = ''DISCHARGE'', step_number = 2, cycle = 1, voltage = 3, step_amp_hours = 3 / 16\<rparr>]"

text \<open>
  Discharge rows of cycles 1 to 4 whose greatest \<open>step_amp_hours\<close> are 11, 10, 9 and 9.5,
  and a charge row.
\<close>

definition drift_rows :: dataframe where
  "drift_rows =
     [\<lparr>step_type = ''DISCHARGE'', step_number = 2, cycle = 1, voltage = 3, step_amp_hours = 11\<rparr>,
      \<lparr>step_type = ''CHARGE'', step_number = 1, cycle = 2, voltage = 4, step_amp_hours = 12\<rparr>,
      \<lparr>step_type = ''DISCHARGE'', step_number = 2, cycle = 2, voltage = 7 / 2, step_amp_hours = 8\<rparr>,
      \<lparr>step_type = ''DISCHARGE'', step_number = 2, cycle = 2, voltage = 3, step_amp_hours = 10\<rparr>,
      \<lparr>step_type = ''DISCHARGE'', step_number = 2, cycle = 3, voltage = 3, step_amp_hours = 9\<rparr>,
      \<lparr>step_type = ''DISCHARGE'', step_number = 2, cycle = 4, voltage = 3, step_amp_hours = 19 / 2\<rparr>]"

text \<open>
  The dictionary that the two capacity extractions build from \<open>capacity_rows\<close> with a
  mass of 0.5 (250 mAh charged, 187.5 mAh discharged).
\<close>

definition capacity_features :: features where
  "capacity_features =
     [''Initial Charge Capacity (mAh)'' \<mapsto> NpF (Fin 250),
      ''Initial Specific Charge Capacity (mAh/g) '' \<mapsto> NpF (Fin 500),
      ''Initial Discharge Capacity (mAh)'' \<mapsto> NpF (Fin (375 / 2)),
      ''Initial Specific Discharge capacity (mAh/g)'' \<mapsto> NpF (Fin 375)]"

text \<open>
  A first cycle that charges 1.25 Ah and discharges 0.765625 Ah, and a dictionary with a
  discharge capacity of 3.0625 mAh and a charge capacity of 5 mAh: in both the quotient
  of the capacities times 100 is not 61.25 in double precision.
\<close>

definition tie_rows :: dataframe where
  "tie_rows =
     [\<lparr>step_type = ''REST'', step_number = 0, cycle = 1, voltage = 3, step_amp_hours = 0\<rparr>,
      \<lparr>step_type = ''CHARGE'', step_number = 1, cycle = 1, voltage = 4, step_amp_hours = 5 / 4\<rparr>,
      \<lparr>step_type = ''DISCHARGE'', step_number = 2, cycle = 1, voltage = 3, step_amp_hours = 49 / 64\<rparr>]"

definition tie_features :: features where
  "tie_features =
     [''Initial Charge Capacity (mAh)'' \<mapsto> NpF (Fin 5),
      ''Initial Discharge Capacity (mAh)'' \<mapsto> NpF (Fin (49 / 16))]"

text \<open>
  \<open>Path(path).stem\<close> for a POSIX path: the last component that is neither empty nor
  \<open>.\<close>, without its last suffix. \<open>rfind\<close> is -1 when the character does not occur.
\<close>

definition rfind :: "string \<Rightarrow> char \<Rightarrow> int" where
  "rfind s c =
     (if c \<in> set s then int (length s) - 1 - int (length (takeWhile (\<lambda>x. x \<noteq> c) (rev s)))
      else - 1)"

definition posix_name :: "string \<Rightarrow> string" where
  "posix_name path =
     (case filter (\<lambda>part. part \<noteq> [] \<and> part \<noteq> ''.'') (str_split path CHR ''/'') of
        [] \<Rightarrow> []
      | p # ps \<Rightarrow> last (p # ps))"

definition posix_stem :: "string \<Rightarrow> string" where
  "posix_stem path =
     (let name = posix_name path; i = rfind name CHR ''.''
      in if 0 < i \<and> i < int (length name) - 1 then take (nat i) name else name)"

text \<open>An environment whose reader returns the same table for every path.\<close>

definition example_env :: env where
  "example_env =
     \<lparr>path_stem = posix_stem, convert_file_to_cloud = (\<lambda>path. Some capacity_rows),
      py_float = float_decimal\<rparr>"

section \<open>Properties\<close>

subsection \<open>Selections\<close>

lemma mask_select_map: "mask_select df (map p df) = filter p df"
  by (induction df) (auto simp: mask_select_def)

lemma logical_and_map: "logical_and (map p df) (map q df) out = map (\<lambda>r. p r \<and> q r) df"
  by (induction df) (auto simp: logical_and_def)

lemma mask_select_logical_and:
  "mask_select df (logical_and (col_eq f a df) (col_eq g b df) out) = filter (\<lambda>r. f r = a \<and> g r = b) df"
  by (simp add: col_eq_def logical_and_map mask_select_map)

lemma mask_select_col_eq: "mask_select df (col_eq f a df) = filter (\<lambda>r. f r = a) df"
  by (simp add: col_eq_def mask_select_map)

lemma series_max_Max: "xs \<noteq> [] \<Longrightarrow> series_max xs = NpF (Fin (Max (set xs)))"
proof (cases xs)
  case Nil
  assume "xs \<noteq> []"
  with Nil show ?thesis by simp
next
  case (Cons a list)
  then show ?thesis by (simp only: series_max.simps Max.set_eq_fold)
qed

lemma series_max_set: "set xs = set ys \<Longrightarrow> series_max xs = series_max ys"
proof (cases "xs = []")
  case True
  assume "set xs = set ys"
  with True show ?thesis by simp
next
  case False
  assume h: "set xs = set ys"
  with False have "ys \<noteq> []" by auto
  with False h show ?thesis by (simp add: series_max_Max)
qed

lemma series_max_kind: "series_max xs = PyF NaN \<or> (\<exists>m. series_max xs = NpF (Fin m))"
  by (cases xs) simp_all

lemma extract_ocv_selects:
  "extract_ocv (Some df) features =
     (let rows = filter (\<lambda>r. step_type r = ''REST'' \<and> step_number r = 0) df
      in if rows = [] then Inl IndexError
         else Inr (features(''Open Circuit Potential (V)'' \<mapsto>
                     NpF (np_round (Fin (voltage (last rows))) 3))))"
  by (simp add: extract_ocv_def mask_select_logical_and iloc_last_def Let_def last_map)

lemma initial_capacity_eq:
  "initial_capacity step key skey (Some df) features mass =
     (let capacity = series_max (map step_amp_hours
                        (filter (\<lambda>r. step_type r = step \<and> cycle r = 1) df))
      in case num_div (num_mul capacity (PyF (Fin 1000))) (PyF mass) of
           Inl e \<Rightarrow> Inl e
         | Inr specific_capacity \<Rightarrow>
             Inr (features(key \<mapsto> num_round (num_mul capacity (PyF (Fin 1000))) 3,
                           skey \<mapsto> num_round specific_capacity 1)))"
  by (simp add: initial_capacity_def mask_select_logical_and Let_def cong: sum.case_cong)

lemma initial_capacity_perm:
  assumes "mset df' = mset df"
  shows "initial_capacity step key skey (Some df') features mass =
         initial_capacity step key skey (Some df) features mass"
proof -
  let ?sel' = "map step_amp_hours (filter (\<lambda>r. step_type r = step \<and> cycle r = 1) df')"
  let ?sel = "map step_amp_hours (filter (\<lambda>r. step_type r = step \<and> cycle r = 1) df)"
  from assms have "set df' = set df" by (rule mset_eq_setD)
  then have s: "set ?sel' = set ?sel" by simp
  have m: "series_max ?sel' = series_max ?sel"
    using s by (rule series_max_set)
  show ?thesis
    by (simp only: initial_capacity_eq Let_def m)
qed

lemma initial_capacity_nonempty:
  assumes "\<exists>r \<in> set df. step_type r = step \<and> cycle r = 1"
  shows "initial_capacity step key skey (Some df) features mass =
     Inr (features(
       key \<mapsto> NpF (np_round (fmul (Fin (Max (step_amp_hours ` {r \<in> set df. step_type r = step \<and> cycle r = 1}))) (Fin 1000)) 3),
       skey \<mapsto> NpF (np_round (fdiv (fmul (Fin (Max (step_amp_hours ` {r \<in> set df. step_type r = step \<and> cycle r = 1}))) (Fin 1000)) mass) 1)))"
proof -
  let ?sel = "map step_amp_hours (filter (\<lambda>r. step_type r = step \<and> cycle r = 1) df)"
  from assms have ne: "?sel \<noteq> []" by (auto simp: filter_empty_conv)
  have "set ?sel = step_amp_hours ` {r \<in> set df. step_type r = step \<and> cycle r = 1}" by auto
  with ne have "series_max ?sel = NpF (Fin (Max (step_amp_hours ` {r \<in> set df. step_type r = step \<and> cycle r = 1})))"
    by (simp add: series_max_Max)
  then show ?thesis by (simp add: initial_capacity_eq Let_def num_mul_def num_div_def)
qed

lemma initial_capacity_empty:
  assumes "\<not> (\<exists>r \<in> set df. step_type r = step \<and> cycle r = 1)"
  shows "initial_capacity step key skey (Some df) features mass =
     (if mass = Fin 0 then Inl ZeroDivisionError
      else Inr (features(key \<mapsto> PyF NaN, skey \<mapsto> PyF NaN)))"
proof -
  from assms have "filter (\<lambda>r. step_type r = step \<and> cycle r = 1) df = []"
    by (auto simp: filter_empty_conv)
  then show ?thesis by (simp add: initial_capacity_eq Let_def num_mul_def num_div_def)
qed

subsection \<open>Discharge capacity per cycle\<close>

lemma filter_group_rows:
  "filter (\<lambda>(c', m). c' = c) (group_rows D a) = (if a = c then group_rows D a else [])"
  by (auto simp: group_rows_def split: list.splits)

lemma filter_concat_group_rows:
  "distinct cs \<Longrightarrow>
   filter (\<lambda>(c', m). c' = c) (concat (map (group_rows D) cs)) =
     (if c \<in> set cs then group_rows D c else [])"
  by (induction cs) (auto simp: filter_group_rows)

lemma group_rows_absent: "c \<notin> cycle ` set D \<Longrightarrow> group_rows D c = []"
proof -
  assume "c \<notin> cycle ` set D"
  then have "filter (\<lambda>r. cycle r = c) D = []" by (auto simp: filter_empty_conv)
  then show ?thesis by (simp add: group_rows_def)
qed

lemma filter_groupby_cycle_max:
  "filter (\<lambda>(c', m). c' = c) (groupby_cycle_max D) = group_rows D c"
proof -
  have "distinct (sort (remdups (map cycle D)))" by simp
  then have "filter (\<lambda>(c', m). c' = c) (groupby_cycle_max D) =
     (if c \<in> set (sort (remdups (map cycle D))) then group_rows D c else [])"
    unfolding groupby_cycle_max_def by (rule filter_concat_group_rows)
  then show ?thesis by (auto simp: group_rows_absent)
qed

lemma series_max_group_rows:
  "series_max (map snd (group_rows D c)) = series_max (map step_amp_hours (filter (\<lambda>r. cycle r = c) D))"
  by (auto simp: group_rows_def split: list.splits)

lemma filter_cycle_after_first:
  "filter (\<lambda>(c, m). c = n) (filter (\<lambda>(c, m). (1::int) < c) G) =
     (if 1 < n then filter (\<lambda>(c, m). c = n) G else [])"
  by (induction G) auto

lemma discharge_capacity_of_df_discharge:
  "discharge_capacity_of (df_discharge df) n =
     requested_capacity df n"
proof -
  let ?G = "groupby_cycle_max (filter (\<lambda>r. step_type r = ''DISCHARGE'') df)"
  have "filter (\<lambda>(c, m). c = n) (filter (\<lambda>(c, m). 1 < c) ?G) =
        (if 1 < n then filter (\<lambda>(c, m). c = n) ?G else [])"
    by (rule filter_cycle_after_first)
  then have "discharge_capacity_of (df_discharge df) n =
      (if 1 < n then series_max (map snd (filter (\<lambda>(c, m). c = n) ?G)) else PyF NaN)"
    by (simp add: discharge_capacity_of_def df_discharge_def mask_select_col_eq)
  then show ?thesis
    by (simp add: filter_groupby_cycle_max series_max_group_rows cycle_discharge_capacity_def
          requested_capacity_def conj_commute)
qed

subsection \<open>Filenames\<close>


lemma get_protocol_type_cycle_life_first:
  "\<not> py_in ''OCV'' f \<Longrightarrow> py_in ''Life'' f \<Longrightarrow> get_protocol_type f stdin = (Inr ''CL'', stdin)"
  by (simp add: get_protocol_type_def)

lemma split_acc_length: "length (split_acc sep acc s) = Suc (count_list s sep)"
  by (induction s arbitrary: acc) auto

lemma second_token_absent:
  "(list_index (str_split filename CHR ''_'') 1 = Inl IndexError) = (CHR ''_'' \<notin> set filename)"
proof -
  have "(count_list filename CHR ''_'' = 0) = (CHR ''_'' \<notin> set filename)"
    by (simp add: count_list_0_iff)
  then show ?thesis
    by (auto simp: list_index_def str_split_def split_acc_length)
qed

subsection \<open>The two patterns\<close>

lemma match_CC_digits_sound:
  assumes "match_CC_digits s = Some g2"
  shows "\<exists>ds r. g2 = ''CC-'' @ ds \<and> s = g2 @ r \<and> ds \<noteq> [] \<and> length ds \<le> 2 \<and> list_all is_digit ds"
proof -
  from assms have p: "prefix ''CC-'' s"
    by (auto simp: match_CC_digits_def split: if_splits)
  then obtain t where s: "s = ''CC-'' @ t" by (auto simp: prefix_def)
  with assms show ?thesis
    by (auto simp: match_CC_digits_def split: list.splits if_splits)
qed

lemma match_CC_sound:
  "match_CC acc s = Some (g1, g2) \<Longrightarrow>
   \<exists>ds r. rev acc @ s = g1 @ g2 @ r \<and> g2 = ''CC-'' @ ds \<and> ds \<noteq> [] \<and> length ds \<le> 2 \<and>
          list_all is_digit ds"
proof (induction acc s rule: match_CC.induct)
  case (1 acc)
  then show ?case by simp
next
  case (2 acc c cs)
  show ?case
  proof (cases "match_CC_digits (c # cs)")
    case None
    with 2 show ?thesis by (auto split: if_splits)
  next
    case (Some g)
    with "2.prems" have "g1 = rev acc" "g2 = g" by auto
    with match_CC_digits_sound [OF Some] show ?thesis by auto
  qed
qed

lemma match_before_CC_sound:
  "match_before_CC acc s = Some g \<Longrightarrow> \<exists>post. rev acc @ s = g @ ''-CC'' @ post"
proof (induction acc s rule: match_before_CC.induct)
  case (1 acc)
  then show ?case by simp
next
  case (2 acc c cs)
  show ?case
  proof (cases "prefix ''-CC'' (c # cs)")
    case True
    with "2.prems" have "g = rev acc" by simp
    with True show ?thesis by (auto simp: prefix_def)
  next
    case False
    with 2 show ?thesis by (auto split: if_splits)
  qed
qed

lemma search_before_CC_sound:
  "search_before_CC s = Some g \<Longrightarrow> \<exists>pre post. s = pre @ g @ ''-CC'' @ post"
proof (induction s)
  case Nil
  then show ?case by simp
next
  case (Cons c cs)
  show ?case
  proof (cases "match_before_CC [] (c # cs)")
    case None
    with Cons obtain pre post where "cs = pre @ g @ ''-CC'' @ post" by auto
    then have "c # cs = (c # pre) @ g @ ''-CC'' @ post" by simp
    then show ?thesis by blast
  next
    case (Some g')
    with Cons.prems have "g' = g" by simp
    with match_before_CC_sound [OF Some] have "\<exists>post. c # cs = [] @ g @ ''-CC'' @ post" by simp
    then show ?thesis by blast
  qed
qed

subsection \<open>Dictionary keys\<close>

lemma digit_val_nth: "k < 10 \<Longrightarrow> digit_val (''0123456789'' ! k) = k"
proof -
  assume "k < 10"
  then have "k \<in> {0, 1, 2, 3, 4, 5, 6, 7, 8, 9}" by auto
  then show ?thesis by (auto simp: digit_val_def)
qed

lemma digit_nth_mem: "k < 10 \<Longrightarrow> ''0123456789'' ! k \<in> set ''0123456789''"
  by (rule nth_mem) simp

lemma digits_val_snoc: "digits_val (ds @ [c]) = 10 * digits_val ds + digit_val c"
  by (simp add: digits_val_def)

lemma digits_val_str_nat: "digits_val (str_nat n) = n"
proof (induction n rule: str_nat.induct)
  case (1 n)
  show ?case
  proof (cases "n < 10")
    case True
    then show ?thesis
      using digit_val_nth [of n] by (simp add: str_nat.simps [of n] digits_val_def)
  next
    case False
    with 1 have "digits_val (str_nat (n div 10)) = n div 10" by simp
    moreover have "digit_val (''0123456789'' ! (n mod 10)) = n mod 10"
      by (rule digit_val_nth) simp
    ultimately show ?thesis
      using False by (simp add: str_nat.simps [of n] digits_val_snoc)
  qed
qed

lemma str_nat_digits: "set (str_nat n) \<subseteq> set ''0123456789''"
proof (induction n rule: str_nat.induct)
  case (1 n)
  show ?case
  proof (cases "n < 10")
    case True
    then show ?thesis
      using digit_nth_mem [of n] by (simp add: str_nat.simps [of n])
  next
    case False
    with 1 have "set (str_nat (n div 10)) \<subseteq> set ''0123456789''" by simp
    moreover have "''0123456789'' ! (n mod 10) \<in> set ''0123456789''"
      by (rule digit_nth_mem) simp
    ultimately show ?thesis
      using False by (simp add: str_nat.simps [of n])
  qed
qed

lemma str_nat_inj: "str_nat a = str_nat b \<Longrightarrow> a = b"
  by (metis digits_val_str_nat)

lemma str_nat_no_minus: "str_nat a \<noteq> CHR ''-'' # s"
proof
  assume "str_nat a = CHR ''-'' # s"
  then have "CHR ''-'' \<in> set (str_nat a)" by simp
  with str_nat_digits [of a] show False by auto
qed

lemma str_int_inj: "str_int a = str_int b \<Longrightarrow> a = b"
proof -
  assume e: "str_int a = str_int b"
  show ?thesis
  proof (cases "a < 0"; cases "b < 0")
    assume "a < 0" "b < 0"
    with e have "nat (- a) = nat (- b)" by (simp add: str_int_def str_nat_inj)
    with \<open>a < 0\<close> \<open>b < 0\<close> show ?thesis by simp
  next
    assume "a < 0" "\<not> b < 0"
    with e str_nat_no_minus show ?thesis by (simp add: str_int_def) metis
  next
    assume "\<not> a < 0" "b < 0"
    with e str_nat_no_minus show ?thesis by (simp add: str_int_def)
  next
    assume "\<not> a < 0" "\<not> b < 0"
    with e have "nat a = nat b" by (simp add: str_int_def str_nat_inj)
    with \<open>\<not> a < 0\<close> \<open>\<not> b < 0\<close> show ?thesis by simp
  qed
qed

lemma retention_key_inj: "retention_key a = retention_key b \<Longrightarrow> a = b"
  by (simp add: retention_key_def str_int_inj)

lemma difference_key_inj: "difference_key a = difference_key b \<Longrightarrow> a = b"
  by (simp add: difference_key_def str_int_inj)

subsection \<open>The two loops over the requested cycles\<close>

lemma requested_capacity_kind:
  "requested_capacity df n = PyF NaN \<or> (\<exists>m. requested_capacity df n = NpF (Fin m))"
  using series_max_kind by (simp add: requested_capacity_def cycle_discharge_capacity_def)

lemma requested_capacity_missing:
  "\<not> (\<exists>r \<in> set df. step_type r = ''DISCHARGE'' \<and> cycle r = n) \<Longrightarrow>
   requested_capacity df n = PyF NaN"
proof -
  assume "\<not> (\<exists>r \<in> set df. step_type r = ''DISCHARGE'' \<and> cycle r = n)"
  then have "filter (\<lambda>r. step_type r = ''DISCHARGE'' \<and> cycle r = n) df = []"
    by (auto simp: filter_empty_conv)
  then show ?thesis by (simp add: requested_capacity_def cycle_discharge_capacity_def)
qed

lemma np_round_NaN: "np_round NaN ndigits = NaN"
  by (simp add: np_round_def)

lemma retention_value_missing: "num_val (retention_value initial (PyF NaN)) = NaN"
  by (cases initial) (simp_all add: retention_value_def np_round_NaN)

lemma retention_step_ok:
  assumes "\<not> python_zero_divisor initial"
  shows "retention_step (df_discharge df) initial n features =
     Inr (features(retention_key n \<mapsto> retention_value initial (requested_capacity df n)))"
proof -
  from requested_capacity_kind [of df n] show ?thesis
  proof
    assume c: "requested_capacity df n = PyF NaN"
    with assms show ?thesis
      by (cases initial)
         (simp_all add: retention_step_def discharge_capacity_of_df_discharge Let_def
            num_div_def num_mul_def retention_value_def python_zero_divisor_def)
  next
    assume "\<exists>m. requested_capacity df n = NpF (Fin m)"
    then obtain m where c: "requested_capacity df n = NpF (Fin m)" ..
    then show ?thesis
      by (cases initial)
         (simp_all add: retention_step_def discharge_capacity_of_df_discharge Let_def
            num_div_def num_mul_def retention_value_def)
  qed
qed

lemma retention_step_zero:
  assumes "python_zero_divisor initial"
  shows "retention_step (df_discharge df) initial n features =
     (if requested_capacity df n = PyF NaN then Inl ZeroDivisionError
      else Inr (features(retention_key n \<mapsto> retention_value initial (requested_capacity df n))))"
proof -
  from requested_capacity_kind [of df n] show ?thesis
  proof
    assume c: "requested_capacity df n = PyF NaN"
    with assms show ?thesis
      by (cases initial)
         (simp_all add: retention_step_def discharge_capacity_of_df_discharge Let_def
            num_div_def num_mul_def python_zero_divisor_def)
  next
    assume "\<exists>m. requested_capacity df n = NpF (Fin m)"
    then obtain m where c: "requested_capacity df n = NpF (Fin m)" ..
    with assms show ?thesis
      by (cases initial)
         (simp_all add: retention_step_def discharge_capacity_of_df_discharge Let_def
            num_div_def num_mul_def retention_value_def python_zero_divisor_def)
  qed
qed

lemma for_each_retention_ok:
  assumes "\<not> python_zero_divisor initial"
  shows "for_each (retention_step (df_discharge df) initial) cycles features =
     Inr (fold (\<lambda>n f. f(retention_key n \<mapsto> retention_value initial (requested_capacity df n)))
            cycles features)"
  using assms by (induction cycles arbitrary: features) (simp_all add: retention_step_ok)

lemma for_each_retention_zero:
  assumes "python_zero_divisor initial" and "n \<in> set cycles"
    and "requested_capacity df n = PyF NaN"
  shows "for_each (retention_step (df_discharge df) initial) cycles features =
     Inl ZeroDivisionError"
  using assms(2)
proof (induction cycles arbitrary: features)
  case Nil
  then show ?case by simp
next
  case (Cons c cs)
  show ?case
  proof (cases "requested_capacity df c = PyF NaN")
    case True
    with assms(1) show ?thesis by (simp add: retention_step_zero)
  next
    case False
    with assms(3) have "c \<noteq> n" by auto
    with Cons.prems have "n \<in> set cs" by simp
    with Cons.IH False assms(1) show ?thesis by (simp add: retention_step_zero)
  qed
qed

lemma fold_retention_lookup:
  "n \<in> set cycles \<Longrightarrow>
   fold (\<lambda>n f. f(retention_key n \<mapsto> val n)) cycles features (retention_key n) = Some (val n)"
proof (induction cycles rule: rev_induct)
  case Nil
  then show ?case by simp
next
  case (snoc x xs)
  show ?case
  proof (cases "x = n")
    case True
    then show ?thesis by simp
  next
    case False
    then have "retention_key x \<noteq> retention_key n" using retention_key_inj by blast
    moreover from False snoc.prems have "n \<in> set xs" by simp
    ultimately show ?thesis using snoc.IH by simp
  qed
qed

lemma difference_step_eq:
  assumes "prev = PyF NaN \<or> (\<exists>m. prev = NpF (Fin m))"
  shows "difference_step (df_discharge df) n (features, prev) =
     Inr (features(difference_key n \<mapsto> percent_change prev (requested_capacity df n)),
          requested_capacity df n)"
proof -
  from requested_capacity_kind [of df n] assms show ?thesis
    by (auto simp: difference_step_def discharge_capacity_of_df_discharge Let_def
          num_div_def num_sub_def percent_change_def)
qed

lemma for_each_difference:
  assumes "prev = requested_capacity df p"
  shows "for_each (difference_step (df_discharge df)) cycles (features, prev) =
     Inr (fold (\<lambda>pair f. f(difference_key (snd pair) \<mapsto>
                  percent_change (requested_capacity df (fst pair))
                                 (requested_capacity df (snd pair))))
            (zip (p # cycles) cycles) features,
          requested_capacity df (last (p # cycles)))"
  using assms
proof (induction cycles arbitrary: features prev p)
  case Nil
  then show ?case by simp
next
  case (Cons c cs)
  from Cons.prems requested_capacity_kind [of df p]
  have k: "prev = PyF NaN \<or> (\<exists>m. prev = NpF (Fin m))" by simp
  let ?F = "\<lambda>pair f. f(difference_key (snd pair) \<mapsto>
                  percent_change (requested_capacity df (fst pair))
                                 (requested_capacity df (snd pair)))"
  have "for_each (difference_step (df_discharge df)) (c # cs) (features, prev) =
        for_each (difference_step (df_discharge df)) cs
          (features(difference_key c \<mapsto> percent_change prev (requested_capacity df c)),
           requested_capacity df c)"
    by (simp add: difference_step_eq [OF k])
  also have "\<dots> = Inr (fold ?F (zip (c # cs) cs)
            (features(difference_key c \<mapsto> percent_change prev (requested_capacity df c))),
          requested_capacity df (last (c # cs)))"
    by (rule Cons.IH) simp
  finally have a: "for_each (difference_step (df_discharge df)) (c # cs) (features, prev) =
     Inr (fold ?F (zip (c # cs) cs)
            (features(difference_key c \<mapsto> percent_change prev (requested_capacity df c))),
          requested_capacity df (last (c # cs)))" .
  have b: "Inr (fold ?F (zip (p # c # cs) (c # cs)) features,
               requested_capacity df (last (p # c # cs))) =
     (Inr (fold ?F (zip (c # cs) cs)
            (features(difference_key c \<mapsto> percent_change prev (requested_capacity df c))),
          requested_capacity df (last (c # cs))) :: error + features \<times> pynum)"
    using Cons.prems by simp
  show ?case by (simp only: a b)
qed

lemma extract_discharge_capacity_difference_eq:
  "extract_discharge_capacity_difference (Some df) features cycles =
     Inr (drift_updates (requested_capacity df) cycles features)"
  using for_each_difference [of "requested_capacity df 2" df 2 cycles features]
  by (simp add: extract_discharge_capacity_difference_def Let_def drift_updates_def
        discharge_capacity_of_df_discharge)

lemma zip_shifted_snoc:
  "zip (p # bs @ [a]) (bs @ [b]) = zip (p # bs) bs @ [((p # bs) ! length bs, b)]"
  by (induction bs arbitrary: p) auto

lemma drift_updates_lookup:
  assumes "distinct cycles" and "i < length cycles"
  shows "drift_updates capacity cycles features (difference_key (cycles ! i)) =
     Some (percent_change (capacity ((2 # cycles) ! i)) (capacity (cycles ! i)))"
  using assms
proof (induction cycles arbitrary: i rule: rev_induct)
  case Nil
  then show ?case by simp
next
  case (snoc x xs)
  have z: "zip (2 # xs @ [x]) (xs @ [x]) = zip (2 # xs) xs @ [((2 # xs) ! length xs, x)]"
    by (rule zip_shifted_snoc)
  have d: "drift_updates capacity (xs @ [x]) features =
     (drift_updates capacity xs features)
       (difference_key x \<mapsto> percent_change (capacity ((2 # xs) ! length xs)) (capacity x))"
    by (simp add: drift_updates_def z del: append_Cons)
  have n: "(2 # xs @ [x]) ! j = (2 # xs) ! j" if "j \<le> length xs" for j
    using that nth_append [of "2 # xs" "[x]" j] by simp
  show ?case
  proof (cases "i = length xs")
    case True
    then show ?thesis by (simp add: d n)
  next
    case False
    with snoc.prems have i: "i < length xs" by simp
    with snoc.prems have "xs ! i \<noteq> x" by (auto simp: nth_mem)
    then have ne: "difference_key x \<noteq> difference_key (xs ! i)" using difference_key_inj by blast
    from snoc.prems have "distinct xs" by simp
    from snoc.IH [OF this i] ne i show ?thesis
      by (simp add: d n nth_append)
  qed
qed

subsection \<open>Initial capacities and coulombic efficiency\<close>

lemma initial_capacity_value:
  assumes "series_max (map step_amp_hours
             (filter (\<lambda>r. step_type r = step \<and> cycle r = 1) df)) = NpF (Fin m)"
  shows "initial_capacity step key skey (Some df) f mass =
     Inr (f(key \<mapsto> NpF (np_round (fmul (Fin m) (Fin 1000)) 3),
            skey \<mapsto> NpF (np_round (fdiv (fmul (Fin m) (Fin 1000)) mass) 1)))"
  using assms by (simp add: initial_capacity_eq num_mul_def num_div_def)

lemma initial_capacity_kind:
  assumes "initial_capacity step key skey cloud f0 mass = Inr features"
    and "key \<noteq> skey"
  shows "\<exists>v. features key = Some v \<and> (v = PyF NaN \<or> (\<exists>x. v = NpF x))"
proof -
  from assms(1) obtain df where c: "cloud = Some df"
    by (cases cloud) (simp_all add: initial_capacity_def)
  show ?thesis
  proof (cases "\<exists>r \<in> set df. step_type r = step \<and> cycle r = 1")
    case True
    from initial_capacity_nonempty [OF True, of key skey f0 mass] assms c
    show ?thesis by auto
  next
    case False
    from initial_capacity_empty [OF False, of key skey f0 mass] assms c
    show ?thesis by (auto split: if_splits)
  qed
qed

lemma initial_capacity_keeps:
  assumes "initial_capacity step key skey cloud f0 mass = Inr features"
    and "k \<noteq> key" and "k \<noteq> skey"
  shows "features k = f0 k"
  using assms
  by (auto simp: initial_capacity_def Let_def split: option.splits sum.splits)

lemma extracted_capacity_no_python_zero:
  assumes "extract_initial_discharge_capacity cloud f0 mass = Inr features"
    and "features ''Initial Discharge Capacity (mAh)'' = Some initial"
  shows "\<not> python_zero_divisor initial"
proof -
  from assms(1) have "\<exists>v. features ''Initial Discharge Capacity (mAh)'' = Some v \<and>
      (v = PyF NaN \<or> (\<exists>x. v = NpF x))"
    unfolding extract_initial_discharge_capacity_def
    by (rule initial_capacity_kind) simp
  with assms(2) have "initial = PyF NaN \<or> (\<exists>x. initial = NpF x)" by simp
  then show ?thesis by (auto simp: python_zero_divisor_def)
qed

lemma extract_initial_coulombic_efficiency_eq:
  assumes "features ''Initial Discharge Capacity (mAh)'' = Some d"
    and "features ''Initial Charge Capacity (mAh)'' = Some c"
  shows "extract_initial_coulombic_efficiency cloud features =
     (if is_py d \<and> is_py c \<and> num_val c = Fin 0 then Inl ZeroDivisionError
      else Inr (features(''Initial Coulombic Efficiency (%)'' \<mapsto> coulombic_efficiency d c)))"
  using assms
  by (cases d; cases c)
     (simp_all add: extract_initial_coulombic_efficiency_def dict_get_def num_div_def num_mul_def
        coulombic_efficiency_def)

lemma extract_initial_coulombic_efficiency_missing:
  assumes "features ''Initial Discharge Capacity (mAh)'' = None \<or>
           features ''Initial Charge Capacity (mAh)'' = None"
  shows "extract_initial_coulombic_efficiency cloud features = Inl KeyError"
  using assms
  by (auto simp: extract_initial_coulombic_efficiency_def dict_get_def split: option.splits)

lemma formation_after_capacities:
  assumes "extract_ocv cloud Map.empty = Inr f1"
    and "extract_initial_charge_capacity cloud f1 mass = Inr f2"
    and "extract_initial_discharge_capacity cloud f2 mass = Inr f3"
  shows "\<exists>d c. f3 ''Initial Discharge Capacity (mAh)'' = Some d \<and>
               f3 ''Initial Charge Capacity (mAh)'' = Some c \<and>
               extract_formation_features filename cloud mass =
                 Inr (f3(''Initial Coulombic Efficiency (%)'' \<mapsto> coulombic_efficiency d c))"
proof -
  from assms(2) have "\<exists>v. f2 ''Initial Charge Capacity (mAh)'' = Some v \<and>
      (v = PyF NaN \<or> (\<exists>x. v = NpF x))"
    unfolding extract_initial_charge_capacity_def by (rule initial_capacity_kind) simp
  then obtain c where c: "f2 ''Initial Charge Capacity (mAh)'' = Some c"
    and ck: "c = PyF NaN \<or> (\<exists>x. c = NpF x)" by blast
  from assms(3) have "f3 ''Initial Charge Capacity (mAh)'' = f2 ''Initial Charge Capacity (mAh)''"
    unfolding extract_initial_discharge_capacity_def by (rule initial_capacity_keeps) simp_all
  with c have c3: "f3 ''Initial Charge Capacity (mAh)'' = Some c" by simp
  from assms(3) have "\<exists>v. f3 ''Initial Discharge Capacity (mAh)'' = Some v \<and>
      (v = PyF NaN \<or> (\<exists>x. v = NpF x))"
    unfolding extract_initial_discharge_capacity_def by (rule initial_capacity_kind) simp
  then obtain d where d3: "f3 ''Initial Discharge Capacity (mAh)'' = Some d" by blast
  from ck have nz: "\<not> (is_py d \<and> is_py c \<and> num_val c = Fin 0)" by auto
  have "extract_initial_coulombic_efficiency cloud f3 =
      Inr (f3(''Initial Coulombic Efficiency (%)'' \<mapsto> coulombic_efficiency d c))"
    using extract_initial_coulombic_efficiency_eq [OF d3 c3, of cloud] nz by simp
  with assms have "extract_formation_features filename cloud mass =
      Inr (f3(''Initial Coulombic Efficiency (%)'' \<mapsto> coulombic_efficiency d c))"
    by (simp add: extract_formation_features_def)
  with d3 c3 show ?thesis by blast
qed

subsection \<open>The example tables\<close>

lemma retention_key_3: "retention_key 3 = ''Retention Cycle 3 (%)''"
  by (simp add: retention_key_def str_int_def str_nat.simps)

lemma difference_keys:
  "difference_key 2 = ''Retention Difference for 2 (%)''"
  "difference_key 3 = ''Retention Difference for 3 (%)''"
  "difference_key 4 = ''Retention Difference for 4 (%)''"
  by (simp_all add: difference_key_def str_int_def str_nat.simps)

lemma percent_change_examples:
  "percent_change (NpF (Fin 10)) (NpF (Fin 10)) = NpF (Fin 0)"
  "percent_change (NpF (Fin 10)) (NpF (Fin 9)) = NpF (Fin (- 10))"
  "percent_change (NpF (Fin 9)) (NpF (Fin (19 / 2))) = NpF (fl (5556 / 1000))"
  "percent_change (NpF (Fin 10)) (NpF (Fin (19 / 2))) = NpF (Fin (- 5))"
  by code_simp+

lemma drift_rows_capacities:
  "cycle_discharge_capacity drift_rows 2 = NpF (Fin 10)"
  "cycle_discharge_capacity drift_rows 3 = NpF (Fin 9)"
  "cycle_discharge_capacity drift_rows 4 = NpF (Fin (19 / 2))"
  by (simp_all add: cycle_discharge_capacity_def drift_rows_def)

lemma capacity_rows_no_cycle_3:
  "\<not> (\<exists>r \<in> set capacity_rows. step_type r = ''DISCHARGE'' \<and> cycle r = 3)"
  by (simp add: capacity_rows_def)

lemma capacity_features_discharge:
  "capacity_features ''Initial Discharge Capacity (mAh)'' = Some (NpF (Fin (375 / 2)))"
  by (simp add: capacity_features_def)

lemma capacity_rows_ocv:
  "extract_ocv (Some capacity_rows) f = Inr (f(''Open Circuit Potential (V)'' \<mapsto> NpF (Fin 3)))"
proof -
  have "np_round (Fin 3) 3 = Fin 3" by code_simp
  then show ?thesis by (simp add: extract_ocv_selects capacity_rows_def)
qed

lemma capacity_rows_charge:
  "extract_initial_charge_capacity (Some capacity_rows) f (Fin (1 / 2)) =
     Inr (f(''Initial Charge Capacity (mAh)'' \<mapsto> NpF (Fin 250),
            ''Initial Specific Charge Capacity (mAh/g) '' \<mapsto> NpF (Fin 500)))"
proof -
  have r: "np_round (fmul (Fin (1 / 4)) (Fin 1000)) 3 = Fin 250"
    "np_round (fdiv (fmul (Fin (1 / 4)) (Fin 1000)) (Fin (1 / 2))) 1 = Fin 500"
    by code_simp+
  have "series_max (map step_amp_hours
          (filter (\<lambda>r. step_type r = ''CHARGE'' \<and> cycle r = 1) capacity_rows)) = NpF (Fin (1 / 4))"
    by (simp add: capacity_rows_def)
  then show ?thesis
    unfolding extract_initial_charge_capacity_def by (simp only: initial_capacity_value r)
qed

lemma capacity_rows_discharge:
  "extract_initial_discharge_capacity (Some capacity_rows) f (Fin (1 / 2)) =
     Inr (f(''Initial Discharge Capacity (mAh)'' \<mapsto> NpF (Fin (375 / 2)),
            ''Initial Specific Discharge capacity (mAh/g)'' \<mapsto> NpF (Fin 375)))"
proof -
  have r: "np_round (fmul (Fin (3 / 16)) (Fin 1000)) 3 = Fin (375 / 2)"
    "np_round (fdiv (fmul (Fin (3 / 16)) (Fin 1000)) (Fin (1 / 2))) 1 = Fin 375"
    by code_simp+
  have "series_max (map step_amp_hours
          (filter (\<lambda>r. step_type r = ''DISCHARGE'' \<and> cycle r = 1) capacity_rows)) = NpF (Fin (3 / 16))"
    by (simp add: capacity_rows_def)
  then show ?thesis
    unfolding extract_initial_discharge_capacity_def by (simp only: initial_capacity_value r)
qed

lemma tie_rows_ocv:
  "extract_ocv (Some tie_rows) f = Inr (f(''Open Circuit Potential (V)'' \<mapsto> NpF (Fin 3)))"
proof -
  have "np_round (Fin 3) 3 = Fin 3" by code_simp
  then show ?thesis by (simp add: extract_ocv_selects tie_rows_def)
qed

lemma tie_rows_charge:
  "extract_initial_charge_capacity (Some tie_rows) f (Fin 1) =
     Inr (f(''Initial Charge Capacity (mAh)'' \<mapsto> NpF (Fin 1250),
            ''Initial Specific Charge Capacity (mAh/g) '' \<mapsto> NpF (Fin 1250)))"
proof -
  have r: "np_round (fmul (Fin (5 / 4)) (Fin 1000)) 3 = Fin 1250"
    "np_round (fdiv (fmul (Fin (5 / 4)) (Fin 1000)) (Fin 1)) 1 = Fin 1250"
    by code_simp+
  have "series_max (map step_amp_hours
          (filter (\<lambda>r. step_type r = ''CHARGE'' \<and> cycle r = 1) tie_rows)) = NpF (Fin (5 / 4))"
    by (simp add: tie_rows_def)
  then show ?thesis
    unfolding extract_initial_charge_capacity_def by (simp only: initial_capacity_value r)
qed

lemma tie_rows_discharge:
  "extract_initial_discharge_capacity (Some tie_rows) f (Fin 1) =
     Inr (f(''Initial Discharge Capacity (mAh)'' \<mapsto> NpF (Fin (6125 / 8)),
            ''Initial Specific Discharge capacity (mAh/g)'' \<mapsto> NpF (fl (7656 / 10))))"
proof -
  have r: "np_round (fmul (Fin (49 / 64)) (Fin 1000)) 3 = Fin (6125 / 8)"
    "np_round (fdiv (fmul (Fin (49 / 64)) (Fin 1000)) (Fin 1)) 1 = fl (7656 / 10)"
    by code_simp+
  have "series_max (map step_amp_hours
          (filter (\<lambda>r. step_type r = ''DISCHARGE'' \<and> cycle r = 1) tie_rows)) = NpF (Fin (49 / 64))"
    by (simp add: tie_rows_def)
  then show ?thesis
    unfolding extract_initial_discharge_capacity_def by (simp only: initial_capacity_value r)
qed

lemma coulombic_efficiency_examples:
  "coulombic_efficiency (NpF (Fin (49 / 16))) (NpF (Fin 5)) = NpF (fl (613 / 10))"
  "coulombic_efficiency (NpF (Fin (6125 / 8))) (NpF (Fin 1250)) = NpF (fl (613 / 10))"
  "coulombic_efficiency (NpF (Fin (375 / 2))) (NpF (Fin 250)) = NpF (Fin 75)"
  by code_simp+

lemma tie_features_lookup:
  "tie_features ''Initial Discharge Capacity (mAh)'' = Some (NpF (Fin (49 / 16)))"
  "tie_features ''Initial Charge Capacity (mAh)'' = Some (NpF (Fin 5))"
  by (simp_all add: tie_features_def)

subsection \<open>The batch loop\<close>

lemma num_div_no_SystemExit: "num_div a b \<noteq> Inl SystemExit"
  by (simp add: num_div_def)









section \<open>Claims\<close>

subsection \<open>C1: open-circuit voltage\<close>

text \<open>
  Claim C1 says that \<open>Features.extract_ocv\<close> selects exactly the rows with
  \<open>step_type == REST\<close>, \<open>step_number == 0\<close> and \<open>cycle == 1\<close>, and stores the voltage of the
  last of them rounded to three decimals, so that a rest row at step 0 of another cycle is
  never selected. The function selects on the first two conditions only (lemma
  \<open>extract_ocv_selects\<close>): on \<open>ocv_rows\<close>, whose cycle-1 rest row has voltage 3 and whose
  cycle-2 rest row has voltage 4, it stores 4, the voltage of the cycle-2 row, where the
  claim gives 3.
\<close>

theorem extract_ocv_ignores_cycle:
  "extract_ocv (Some ocv_rows) Map.empty = Inr [''Open Circuit Potential (V)'' \<mapsto> NpF (Fin 4)]"
proof -
  have "np_round (Fin 4) 3 = Fin 4" by code_simp
  then show ?thesis by (simp add: extract_ocv_selects ocv_rows_def)
qed

subsection \<open>C8: initial capacities\<close>

text \<open>
  Claim C8: for a table with at least one CHARGE (respectively DISCHARGE) row in cycle 1,
  the stored initial capacity is the greatest \<open>step_amp_hours\<close> of those rows times 1000,
  rounded to three decimals, and the stored specific capacity is that capacity in mAh
  (the maximum times 1000) divided by the mass, rounded to one decimal; and a table with
  the same rows in another order gives the same result. The products, quotients and
  roundings are those of doubles, and the stored values are numpy scalars.
\<close>

theorem initial_capacity_is_step_maximum:
  "((\<exists>r \<in> set df. step_type r = ''CHARGE'' \<and> cycle r = 1) \<longrightarrow>
      extract_initial_charge_capacity (Some df) features mass =
        Inr (features(
          ''Initial Charge Capacity (mAh)'' \<mapsto>
            NpF (np_round (fmul (Fin (Max (step_amp_hours ` {r \<in> set df. step_type r = ''CHARGE'' \<and> cycle r = 1}))) (Fin 1000)) 3),
          ''Initial Specific Charge Capacity (mAh/g) '' \<mapsto>
            NpF (np_round (fdiv (fmul (Fin (Max (step_amp_hours ` {r \<in> set df. step_type r = ''CHARGE'' \<and> cycle r = 1}))) (Fin 1000)) mass) 1)))) \<and>
   ((\<exists>r \<in> set df. step_type r = ''DISCHARGE'' \<and> cycle r = 1) \<longrightarrow>
      extract_initial_discharge_capacity (Some df) features mass =
        Inr (features(
          ''Initial Discharge Capacity (mAh)'' \<mapsto>
            NpF (np_round (fmul (Fin (Max (step_amp_hours ` {r \<in> set df. step_type r = ''DISCHARGE'' \<and> cycle r = 1}))) (Fin 1000)) 3),
          ''Initial Specific Discharge capacity (mAh/g)'' \<mapsto>
            NpF (np_round (fdiv (fmul (Fin (Max (step_amp_hours ` {r \<in> set df. step_type r = ''DISCHARGE'' \<and> cycle r = 1}))) (Fin 1000)) mass) 1)))) \<and>
   (mset df' = mset df \<longrightarrow>
      extract_initial_charge_capacity (Some df') features mass =
        extract_initial_charge_capacity (Some df) features mass \<and>
      extract_initial_discharge_capacity (Some df') features mass =
        extract_initial_discharge_capacity (Some df) features mass)"
  unfolding extract_initial_charge_capacity_def extract_initial_discharge_capacity_def
  using initial_capacity_nonempty initial_capacity_perm by blast

text \<open>
  On \<open>capacity_rows\<close> with a mass of 0.5: 250 mAh and 500 mAh/g charged, 187.5 mAh and
  375 mAh/g discharged, also with the rows reversed.
\<close>

theorem initial_capacity_is_step_maximum_witness:
  "(\<exists>r \<in> set capacity_rows. step_type r = ''CHARGE'' \<and> cycle r = 1) \<and>
   (\<exists>r \<in> set capacity_rows. step_type r = ''DISCHARGE'' \<and> cycle r = 1) \<and>
   mset (rev capacity_rows) = mset capacity_rows \<and>
   extract_initial_charge_capacity (Some capacity_rows) Map.empty (Fin (1 / 2)) =
     Inr [''Initial Charge Capacity (mAh)'' \<mapsto> NpF (Fin 250),
          ''Initial Specific Charge Capacity (mAh/g) '' \<mapsto> NpF (Fin 500)] \<and>
   extract_initial_discharge_capacity (Some capacity_rows) Map.empty (Fin (1 / 2)) =
     Inr [''Initial Discharge Capacity (mAh)'' \<mapsto> NpF (Fin (375 / 2)),
          ''Initial Specific Discharge capacity (mAh/g)'' \<mapsto> NpF (Fin 375)] \<and>
   extract_initial_charge_capacity (Some (rev capacity_rows)) Map.empty (Fin (1 / 2)) =
     extract_initial_charge_capacity (Some capacity_rows) Map.empty (Fin (1 / 2)) \<and>
   extract_initial_discharge_capacity (Some (rev capacity_rows)) Map.empty (Fin (1 / 2)) =
     extract_initial_discharge_capacity (Some capacity_rows) Map.empty (Fin (1 / 2))"
proof -
  have c: "\<exists>r \<in> set capacity_rows. step_type r = ''CHARGE'' \<and> cycle r = 1"
    by (simp add: capacity_rows_def)
  have d: "\<exists>r \<in> set capacity_rows. step_type r = ''DISCHARGE'' \<and> cycle r = 1"
    by (simp add: capacity_rows_def)
  have p: "mset (rev capacity_rows) = mset capacity_rows" by simp
  have mc: "Max (step_amp_hours ` {r \<in> set capacity_rows. step_type r = ''CHARGE'' \<and> cycle r = 1}) = 1 / 4"
  proof -
    have "{r \<in> set capacity_rows. step_type r = ''CHARGE'' \<and> cycle r = 1} =
          set (filter (\<lambda>r. step_type r = ''CHARGE'' \<and> cycle r = 1) capacity_rows)" by simp
    then show ?thesis by (simp add: capacity_rows_def)
  qed
  have md: "Max (step_amp_hours ` {r \<in> set capacity_rows. step_type r = ''DISCHARGE'' \<and> cycle r = 1}) = 3 / 16"
  proof -
    have "{r \<in> set capacity_rows. step_type r = ''DISCHARGE'' \<and> cycle r = 1} =
          set (filter (\<lambda>r. step_type r = ''DISCHARGE'' \<and> cycle r = 1) capacity_rows)" by simp
    then show ?thesis by (simp add: capacity_rows_def)
  qed
  have r: "np_round (fmul (Fin (1 / 4)) (Fin 1000)) 3 = Fin 250"
    "np_round (fdiv (fmul (Fin (1 / 4)) (Fin 1000)) (Fin (1 / 2))) 1 = Fin 500"
    "np_round (fmul (Fin (3 / 16)) (Fin 1000)) 3 = Fin (375 / 2)"
    "np_round (fdiv (fmul (Fin (3 / 16)) (Fin 1000)) (Fin (1 / 2))) 1 = Fin 375"
    by code_simp+
  note t = initial_capacity_is_step_maximum
             [of capacity_rows Map.empty "Fin (1 / 2)" "rev capacity_rows"]
  from t [THEN conjunct1] c
  have "extract_initial_charge_capacity (Some capacity_rows) Map.empty (Fin (1 / 2)) =
     Inr [''Initial Charge Capacity (mAh)'' \<mapsto>
            NpF (np_round (fmul (Fin (Max (step_amp_hours ` {r \<in> set capacity_rows. step_type r = ''CHARGE'' \<and> cycle r = 1}))) (Fin 1000)) 3),
          ''Initial Specific Charge Capacity (mAh/g) '' \<mapsto>
            NpF (np_round (fdiv (fmul (Fin (Max (step_amp_hours ` {r \<in> set capacity_rows. step_type r = ''CHARGE'' \<and> cycle r = 1}))) (Fin 1000)) (Fin (1 / 2))) 1)]"
    by (rule mp)
  then have e1: "extract_initial_charge_capacity (Some capacity_rows) Map.empty (Fin (1 / 2)) =
     Inr [''Initial Charge Capacity (mAh)'' \<mapsto> NpF (Fin 250),
          ''Initial Specific Charge Capacity (mAh/g) '' \<mapsto> NpF (Fin 500)]"
    by (simp only: mc r)
  from t [THEN conjunct2, THEN conjunct1] d
  have "extract_initial_discharge_capacity (Some capacity_rows) Map.empty (Fin (1 / 2)) =
     Inr [''Initial Discharge Capacity (mAh)'' \<mapsto>
            NpF (np_round (fmul (Fin (Max (step_amp_hours ` {r \<in> set capacity_rows. step_type r = ''DISCHARGE'' \<and> cycle r = 1}))) (Fin 1000)) 3),
          ''Initial Specific Discharge capacity (mAh/g)'' \<mapsto>
            NpF (np_round (fdiv (fmul (Fin (Max (step_amp_hours ` {r \<in> set capacity_rows. step_type r = ''DISCHARGE'' \<and> cycle r = 1}))) (Fin 1000)) (Fin (1 / 2))) 1)]"
    by (rule mp)
  then have e2: "extract_initial_discharge_capacity (Some capacity_rows) Map.empty (Fin (1 / 2)) =
     Inr [''Initial Discharge Capacity (mAh)'' \<mapsto> NpF (Fin (375 / 2)),
          ''Initial Specific Discharge capacity (mAh/g)'' \<mapsto> NpF (Fin 375)]"
    by (simp only: md r)
  from t [THEN conjunct2, THEN conjunct2] p
  have e3: "extract_initial_charge_capacity (Some (rev capacity_rows)) Map.empty (Fin (1 / 2)) =
     extract_initial_charge_capacity (Some capacity_rows) Map.empty (Fin (1 / 2)) \<and>
   extract_initial_discharge_capacity (Some (rev capacity_rows)) Map.empty (Fin (1 / 2)) =
     extract_initial_discharge_capacity (Some capacity_rows) Map.empty (Fin (1 / 2))"
    by (rule mp)
  from e3 have e3a: "extract_initial_charge_capacity (Some (rev capacity_rows)) Map.empty (Fin (1 / 2)) =
     extract_initial_charge_capacity (Some capacity_rows) Map.empty (Fin (1 / 2))"
    by (rule conjunct1)
  from e3 have e3b: "extract_initial_discharge_capacity (Some (rev capacity_rows)) Map.empty (Fin (1 / 2)) =
     extract_initial_discharge_capacity (Some capacity_rows) Map.empty (Fin (1 / 2))"
    by (rule conjunct2)
  show ?thesis by (intro conjI) (fact c d p e1 e2 e3a e3b)+
qed

subsection \<open>C5: initial coulombic efficiency\<close>

text \<open>
  Claim C5 says that \<open>Features.extract_initial_coulombic_efficiency\<close> stores exactly
  \<open>round(100 * discharge / charge, 1)\<close>. The function computes
  \<open>round((discharge / charge) * 100, 1)\<close>, and in double precision the two differ: with a
  discharge capacity of 3.0625 and a charge capacity of 5.0 the quotient times 100 is just
  above 61.25 and the function stores 61.3, while \<open>100 * 3.0625 / 5.0\<close> is 61.25 exactly
  and rounds to 61.2 (with numpy's rounding and with Python's). The same happens in
  \<open>extract_formation_features\<close> on \<open>tie_rows\<close>, whose capacities are 1250 mAh and
  765.625 mAh.
\<close>

theorem coulombic_efficiency_differs_from_round_100_d_over_c:
  "extract_initial_coulombic_efficiency (Some tie_rows) tie_features =
     Inr (tie_features(''Initial Coulombic Efficiency (%)'' \<mapsto> NpF (fl (613 / 10)))) \<and>
   np_round (fdiv (fmul (Fin 100) (Fin (49 / 16))) (Fin 5)) 1 = fl (612 / 10) \<and>
   py_round (fdiv (fmul (Fin 100) (Fin (49 / 16))) (Fin 5)) 1 = fl (612 / 10) \<and>
   fl (613 / 10) \<noteq> fl (612 / 10) \<and>
   extract_formation_features ''B-CC-1_1_Formation'' (Some tie_rows) (Fin 1) =
     Inr [''Open Circuit Potential (V)'' \<mapsto> NpF (Fin 3),
          ''Initial Charge Capacity (mAh)'' \<mapsto> NpF (Fin 1250),
          ''Initial Specific Charge Capacity (mAh/g) '' \<mapsto> NpF (Fin 1250),
          ''Initial Discharge Capacity (mAh)'' \<mapsto> NpF (Fin (6125 / 8)),
          ''Initial Specific Discharge capacity (mAh/g)'' \<mapsto> NpF (fl (7656 / 10)),
          ''Initial Coulombic Efficiency (%)'' \<mapsto> NpF (fl (613 / 10))] \<and>
   np_round (fdiv (fmul (Fin 100) (Fin (6125 / 8))) (Fin 1250)) 1 = fl (612 / 10)"
proof (intro conjI)
  show "extract_initial_coulombic_efficiency (Some tie_rows) tie_features =
     Inr (tie_features(''Initial Coulombic Efficiency (%)'' \<mapsto> NpF (fl (613 / 10))))"
    by (simp only: extract_initial_coulombic_efficiency_eq [OF tie_features_lookup]
          is_py.simps simp_thms if_False coulombic_efficiency_examples)
  show "np_round (fdiv (fmul (Fin 100) (Fin (49 / 16))) (Fin 5)) 1 = fl (612 / 10)" by code_simp
  show "py_round (fdiv (fmul (Fin 100) (Fin (49 / 16))) (Fin 5)) 1 = fl (612 / 10)" by code_simp
  show "fl (613 / 10) \<noteq> fl (612 / 10)" by code_simp
  show "np_round (fdiv (fmul (Fin 100) (Fin (6125 / 8))) (Fin 1250)) 1 = fl (612 / 10)" by code_simp
  let ?f3 = "[''Open Circuit Potential (V)'' \<mapsto> NpF (Fin 3),
          ''Initial Charge Capacity (mAh)'' \<mapsto> NpF (Fin 1250),
          ''Initial Specific Charge Capacity (mAh/g) '' \<mapsto> NpF (Fin 1250),
          ''Initial Discharge Capacity (mAh)'' \<mapsto> NpF (Fin (6125 / 8)),
          ''Initial Specific Discharge capacity (mAh/g)'' \<mapsto> NpF (fl (7656 / 10))]"
  have d: "?f3 ''Initial Discharge Capacity (mAh)'' = Some (NpF (Fin (6125 / 8)))" by simp
  have c: "?f3 ''Initial Charge Capacity (mAh)'' = Some (NpF (Fin 1250))" by simp
  have "extract_initial_coulombic_efficiency (Some tie_rows) ?f3 =
      Inr (?f3(''Initial Coulombic Efficiency (%)'' \<mapsto> NpF (fl (613 / 10))))"
    by (simp only: extract_initial_coulombic_efficiency_eq [OF d c] is_py.simps simp_thms
          if_False coulombic_efficiency_examples)
  then show "extract_formation_features ''B-CC-1_1_Formation'' (Some tie_rows) (Fin 1) =
     Inr (?f3(''Initial Coulombic Efficiency (%)'' \<mapsto> NpF (fl (613 / 10))))"
    by (simp only: extract_formation_features_def tie_rows_ocv tie_rows_charge tie_rows_discharge
          sum.case)
qed

text \<open>
  Claim C5 as amended: for a dictionary that holds both capacities, the function stores
  under \<open>Initial Coulombic Efficiency (%)\<close> the value \<open>(discharge / charge) * 100\<close>, the
  quotient first, rounded to one decimal, except that it raises ZeroDivisionError when
  both capacities are Python floats and the charge capacity is 0.0 (a numpy scalar
  divides by zero without raising); if either key is absent it raises KeyError. In
  \<open>extract_formation_features\<close> the function runs after both capacity extractions:
  whenever the three steps before it succeed, it finds both capacities in their
  dictionary and the result is that dictionary with the efficiency of these two
  capacities added; and \<open>extract_formation_features\<close> never raises KeyError.
\<close>

theorem coulombic_efficiency_quotient_first:
  "(features ''Initial Discharge Capacity (mAh)'' = Some d \<and>
    features ''Initial Charge Capacity (mAh)'' = Some c \<longrightarrow>
      extract_initial_coulombic_efficiency cloud features =
        (if is_py d \<and> is_py c \<and> num_val c = Fin 0 then Inl ZeroDivisionError
         else Inr (features(''Initial Coulombic Efficiency (%)'' \<mapsto>
                num_round ((if is_py d \<and> is_py c then PyF else NpF)
                             (fmul (fdiv (num_val d) (num_val c)) (Fin 100))) 1)))) \<and>
   (features ''Initial Discharge Capacity (mAh)'' = None \<or>
    features ''Initial Charge Capacity (mAh)'' = None \<longrightarrow>
      extract_initial_coulombic_efficiency cloud features = Inl KeyError) \<and>
   (extract_ocv cloud Map.empty = Inr f1 \<and>
    extract_initial_charge_capacity cloud f1 mass = Inr f2 \<and>
    extract_initial_discharge_capacity cloud f2 mass = Inr f3 \<longrightarrow>
      (\<exists>d c. f3 ''Initial Discharge Capacity (mAh)'' = Some d \<and>
              f3 ''Initial Charge Capacity (mAh)'' = Some c \<and>
              extract_formation_features filename cloud mass =
                Inr (f3(''Initial Coulombic Efficiency (%)'' \<mapsto> coulombic_efficiency d c)))) \<and>
   extract_formation_features filename cloud mass \<noteq> Inl KeyError"
proof (intro conjI impI)
  assume "features ''Initial Discharge Capacity (mAh)'' = Some d \<and>
    features ''Initial Charge Capacity (mAh)'' = Some c"
  then show "extract_initial_coulombic_efficiency cloud features =
        (if is_py d \<and> is_py c \<and> num_val c = Fin 0 then Inl ZeroDivisionError
         else Inr (features(''Initial Coulombic Efficiency (%)'' \<mapsto>
                num_round ((if is_py d \<and> is_py c then PyF else NpF)
                             (fmul (fdiv (num_val d) (num_val c)) (Fin 100))) 1)))"
    using extract_initial_coulombic_efficiency_eq [of features d c cloud]
    by (simp only: coulombic_efficiency_def)
next
  assume "features ''Initial Discharge Capacity (mAh)'' = None \<or>
    features ''Initial Charge Capacity (mAh)'' = None"
  then show "extract_initial_coulombic_efficiency cloud features = Inl KeyError"
    by (rule extract_initial_coulombic_efficiency_missing)
next
  assume "extract_ocv cloud Map.empty = Inr f1 \<and>
    extract_initial_charge_capacity cloud f1 mass = Inr f2 \<and>
    extract_initial_discharge_capacity cloud f2 mass = Inr f3"
  then show "\<exists>d c. f3 ''Initial Discharge Capacity (mAh)'' = Some d \<and>
              f3 ''Initial Charge Capacity (mAh)'' = Some c \<and>
              extract_formation_features filename cloud mass =
                Inr (f3(''Initial Coulombic Efficiency (%)'' \<mapsto> coulombic_efficiency d c))"
    using formation_after_capacities [of cloud f1 mass f2 f3 filename] by simp
next
  show "extract_formation_features filename cloud mass \<noteq> Inl KeyError"
  proof
    assume k: "extract_formation_features filename cloud mass = Inl KeyError"
    show False
    proof (cases "extract_ocv cloud Map.empty")
      case (Inl e)
      with k have "extract_ocv cloud Map.empty = Inl KeyError"
        by (simp add: extract_formation_features_def)
      then show False
        by (auto simp: extract_ocv_def iloc_last_def Let_def split: option.splits if_splits)
    next
      case f1: (Inr f1)
      show False
      proof (cases "extract_initial_charge_capacity cloud f1 mass")
        case (Inl e)
        with k f1 have "initial_capacity ''CHARGE'' ''Initial Charge Capacity (mAh)''
            ''Initial Specific Charge Capacity (mAh/g) '' cloud f1 mass = Inl KeyError"
          by (simp add: extract_formation_features_def extract_initial_charge_capacity_def)
        then show False
          by (auto simp: initial_capacity_def num_div_def Let_def
                split: option.splits sum.splits if_splits)
      next
        case f2: (Inr f2)
        show False
        proof (cases "extract_initial_discharge_capacity cloud f2 mass")
          case (Inl e)
          with k f1 f2 have "initial_capacity ''DISCHARGE'' ''Initial Discharge Capacity (mAh)''
              ''Initial Specific Discharge capacity (mAh/g)'' cloud f2 mass = Inl KeyError"
            by (simp add: extract_formation_features_def extract_initial_discharge_capacity_def)
          then show False
            by (auto simp: initial_capacity_def num_div_def Let_def
                  split: option.splits sum.splits if_splits)
        next
          case f3: (Inr f3)
          from formation_after_capacities [OF f1 f2 f3, of filename] k show False by auto
        qed
      qed
    qed
  qed
qed

text \<open>
  The dictionary \<open>tie_features\<close>, a dictionary without the discharge capacity, and the
  formation features of \<open>capacity_rows\<close> with a mass of 0.5, whose efficiency is 75.
\<close>

theorem coulombic_efficiency_quotient_first_witness:
  "tie_features ''Initial Discharge Capacity (mAh)'' = Some (NpF (Fin (49 / 16))) \<and>
   tie_features ''Initial Charge Capacity (mAh)'' = Some (NpF (Fin 5)) \<and>
   extract_initial_coulombic_efficiency (Some tie_rows) tie_features =
     Inr (tie_features(''Initial Coulombic Efficiency (%)'' \<mapsto> NpF (fl (613 / 10)))) \<and>
   extract_initial_coulombic_efficiency (Some tie_rows)
     [''Initial Charge Capacity (mAh)'' \<mapsto> NpF (Fin 5)] = Inl KeyError \<and>
   extract_ocv (Some capacity_rows) Map.empty =
     Inr [''Open Circuit Potential (V)'' \<mapsto> NpF (Fin 3)] \<and>
   extract_initial_charge_capacity (Some capacity_rows)
     [''Open Circuit Potential (V)'' \<mapsto> NpF (Fin 3)] (Fin (1 / 2)) =
     Inr [''Open Circuit Potential (V)'' \<mapsto> NpF (Fin 3),
          ''Initial Charge Capacity (mAh)'' \<mapsto> NpF (Fin 250),
          ''Initial Specific Charge Capacity (mAh/g) '' \<mapsto> NpF (Fin 500)] \<and>
   extract_initial_discharge_capacity (Some capacity_rows)
     [''Open Circuit Potential (V)'' \<mapsto> NpF (Fin 3),
      ''Initial Charge Capacity (mAh)'' \<mapsto> NpF (Fin 250),
      ''Initial Specific Charge Capacity (mAh/g) '' \<mapsto> NpF (Fin 500)] (Fin (1 / 2)) =
     Inr [''Open Circuit Potential (V)'' \<mapsto> NpF (Fin 3),
          ''Initial Charge Capacity (mAh)'' \<mapsto> NpF (Fin 250),
          ''Initial Specific Charge Capacity (mAh/g) '' \<mapsto> NpF (Fin 500),
          ''Initial Discharge Capacity (mAh)'' \<mapsto> NpF (Fin (375 / 2)),
          ''Initial Specific Discharge capacity (mAh/g)'' \<mapsto> NpF (Fin 375)] \<and>
   extract_formation_features ''B-CC-1_0.5_Formation'' (Some capacity_rows) (Fin (1 / 2)) =
     Inr [''Open Circuit Potential (V)'' \<mapsto> NpF (Fin 3),
          ''Initial Charge Capacity (mAh)'' \<mapsto> NpF (Fin 250),
          ''Initial Specific Charge Capacity (mAh/g) '' \<mapsto> NpF (Fin 500),
          ''Initial Discharge Capacity (mAh)'' \<mapsto> NpF (Fin (375 / 2)),
          ''Initial Specific Discharge capacity (mAh/g)'' \<mapsto> NpF (Fin 375),
          ''Initial Coulombic Efficiency (%)'' \<mapsto> NpF (Fin 75)]"
proof -
  let ?f1 = "[''Open Circuit Potential (V)'' \<mapsto> NpF (Fin 3)]"
  let ?f2 = "[''Open Circuit Potential (V)'' \<mapsto> NpF (Fin 3),
          ''Initial Charge Capacity (mAh)'' \<mapsto> NpF (Fin 250),
          ''Initial Specific Charge Capacity (mAh/g) '' \<mapsto> NpF (Fin 500)]"
  let ?f3 = "[''Open Circuit Potential (V)'' \<mapsto> NpF (Fin 3),
          ''Initial Charge Capacity (mAh)'' \<mapsto> NpF (Fin 250),
          ''Initial Specific Charge Capacity (mAh/g) '' \<mapsto> NpF (Fin 500),
          ''Initial Discharge Capacity (mAh)'' \<mapsto> NpF (Fin (375 / 2)),
          ''Initial Specific Discharge capacity (mAh/g)'' \<mapsto> NpF (Fin 375)]"
  note t1 = coulombic_efficiency_quotient_first
              [where features = tie_features and d = "NpF (Fin (49 / 16))" and c = "NpF (Fin 5)"
                 and cloud = "Some tie_rows", THEN conjunct1, rule_format,
               OF conjI [OF tie_features_lookup]]
  have a: "extract_initial_coulombic_efficiency (Some tie_rows) tie_features =
     Inr (tie_features(''Initial Coulombic Efficiency (%)'' \<mapsto> NpF (fl (613 / 10))))"
    using t1 coulombic_efficiency_examples(1) by (simp add: coulombic_efficiency_def)
  have n: "[''Initial Charge Capacity (mAh)'' \<mapsto> NpF (Fin 5)] ''Initial Discharge Capacity (mAh)'' = None \<or>
           [''Initial Charge Capacity (mAh)'' \<mapsto> NpF (Fin 5)] ''Initial Charge Capacity (mAh)'' = None"
    by simp
  note b = coulombic_efficiency_quotient_first
              [where features = "[''Initial Charge Capacity (mAh)'' \<mapsto> NpF (Fin 5)]"
                 and cloud = "Some tie_rows", THEN conjunct2, THEN conjunct1, rule_format, OF n]
  have o: "extract_ocv (Some capacity_rows) Map.empty = Inr ?f1" by (rule capacity_rows_ocv)
  have c: "extract_initial_charge_capacity (Some capacity_rows) ?f1 (Fin (1 / 2)) = Inr ?f2"
    by (rule capacity_rows_charge)
  have d: "extract_initial_discharge_capacity (Some capacity_rows) ?f2 (Fin (1 / 2)) = Inr ?f3"
    by (rule capacity_rows_discharge)
  from coulombic_efficiency_quotient_first
         [where cloud = "Some capacity_rows" and ?f1.0 = ?f1 and ?f2.0 = ?f2 and ?f3.0 = ?f3
            and mass = "Fin (1 / 2)" and filename = "''B-CC-1_0.5_Formation''",
          THEN conjunct2, THEN conjunct2, THEN conjunct1, rule_format, OF conjI [OF o conjI [OF c d]]]
  obtain dv cv where dv: "?f3 ''Initial Discharge Capacity (mAh)'' = Some dv"
    and cv: "?f3 ''Initial Charge Capacity (mAh)'' = Some cv"
    and e: "extract_formation_features ''B-CC-1_0.5_Formation'' (Some capacity_rows) (Fin (1 / 2)) =
                Inr (?f3(''Initial Coulombic Efficiency (%)'' \<mapsto> coulombic_efficiency dv cv))"
    by blast
  from dv have dv': "dv = NpF (Fin (375 / 2))" by simp
  from cv have cv': "cv = NpF (Fin 250)" by simp
  have e': "extract_formation_features ''B-CC-1_0.5_Formation'' (Some capacity_rows) (Fin (1 / 2)) =
                Inr (?f3(''Initial Coulombic Efficiency (%)'' \<mapsto> NpF (Fin 75)))"
    using e by (simp only: dv' cv' coulombic_efficiency_examples)
  show ?thesis
    by (intro conjI) (fact tie_features_lookup a b o c d e')+
qed

subsection \<open>C6: protocol classification\<close>

text \<open>
  Claim C6: a filename that contains \<open>Formation-Capacity-Check\<close> (and so \<open>Formation\<close>) and
  neither the cycle-life marker \<open>Life\<close> nor \<open>OCV\<close> is classified as \<open>FC\<close>, never as \<open>F\<close>:
  the more specific marker is tested first. (That the cycle-life marker is tested before
  both is lemma \<open>get_protocol_type_cycle_life_first\<close>.)
\<close>

theorem formation_capacity_check_before_formation:
  assumes "py_in ''Formation-Capacity-Check'' filename" and "py_in ''Formation'' filename"
    and "\<not> py_in ''Life'' filename" and "\<not> py_in ''OCV'' filename"
  shows "fst (get_protocol_type filename stdin) = Inr ''FC'' \<and>
         fst (get_protocol_type filename stdin) \<noteq> Inr ''F''"
  using assms by (simp add: get_protocol_type_def)

text \<open>
The filename of the specification.
\<close>

theorem formation_capacity_check_before_formation_witness:
  "py_in ''Formation-Capacity-Check'' ''QCL-123-A-Formation-Capacity-Check-CC-1'' \<and>
   py_in ''Formation'' ''QCL-123-A-Formation-Capacity-Check-CC-1'' \<and>
   \<not> py_in ''Life'' ''QCL-123-A-Formation-Capacity-Check-CC-1'' \<and>
   \<not> py_in ''OCV'' ''QCL-123-A-Formation-Capacity-Check-CC-1'' \<and>
   fst (get_protocol_type ''QCL-123-A-Formation-Capacity-Check-CC-1'' []) = Inr ''FC''"
proof -
  have h: "py_in ''Formation-Capacity-Check'' ''QCL-123-A-Formation-Capacity-Check-CC-1''"
    "py_in ''Formation'' ''QCL-123-A-Formation-Capacity-Check-CC-1''"
    "\<not> py_in ''Life'' ''QCL-123-A-Formation-Capacity-Check-CC-1''"
    "\<not> py_in ''OCV'' ''QCL-123-A-Formation-Capacity-Check-CC-1''"
    by simp_all
  from formation_capacity_check_before_formation [OF h, of "[]"] h show ?thesis by blast
qed

subsection \<open>C10: mass from the filename\<close>

text \<open>
  Claim C10: when the filename has no second \<open>_\<close>-delimited token (it contains no \<open>_\<close>), or
  the token is no float literal, \<open>extract_mass_from_filename\<close> returns 1.0; when the
  token parses, the parsed float is returned. The function raises nothing: whatever its
  \<open>try\<close> body raises (the last conjunct) becomes the result 1.0.
\<close>

theorem extract_mass_from_filename_default:
  "(CHR ''_'' \<notin> set filename \<longrightarrow> extract_mass_from_filename float filename = Fin 1) \<and>
   (\<forall>tok. list_index (str_split filename CHR ''_'') 1 = Inr tok \<and> float tok = None \<longrightarrow>
      extract_mass_from_filename float filename = Fin 1) \<and>
   (\<forall>tok v. list_index (str_split filename CHR ''_'') 1 = Inr tok \<and> float tok = Some v \<longrightarrow>
      extract_mass_from_filename float filename = v) \<and>
   (\<forall>e. mass_token float filename = Inl e \<longrightarrow> extract_mass_from_filename float filename = Fin 1)"
proof -
  have a: "CHR ''_'' \<notin> set filename \<longrightarrow> extract_mass_from_filename float filename = Fin 1"
    using second_token_absent [of filename]
    by (auto simp: extract_mass_from_filename_def mass_token_def)
  have b: "\<forall>tok. list_index (str_split filename CHR ''_'') 1 = Inr tok \<and> float tok = None \<longrightarrow>
      extract_mass_from_filename float filename = Fin 1"
    by (simp add: extract_mass_from_filename_def mass_token_def)
  have c: "\<forall>tok v. list_index (str_split filename CHR ''_'') 1 = Inr tok \<and> float tok = Some v \<longrightarrow>
      extract_mass_from_filename float filename = v"
    by (simp add: extract_mass_from_filename_def mass_token_def)
  have d: "\<forall>e. mass_token float filename = Inl e \<longrightarrow> extract_mass_from_filename float filename = Fin 1"
    by (simp add: extract_mass_from_filename_def)
  from a b c d show ?thesis by blast
qed

text \<open>
A filename without \<open>_\<close>, one whose second token is \<open>x5\<close> and one whose second token is \<open>0.25\<close>.
\<close>

theorem extract_mass_from_filename_default_witness:
  "CHR ''_'' \<notin> set ''QCL-1-CC-1'' \<and>
   extract_mass_from_filename float_decimal ''QCL-1-CC-1'' = Fin 1 \<and>
   list_index (str_split ''QCL-1-CC-1_x5_Formation'' CHR ''_'') 1 = Inr ''x5'' \<and>
   float_decimal ''x5'' = None \<and>
   mass_token float_decimal ''QCL-1-CC-1_x5_Formation'' = Inl ValueError \<and>
   extract_mass_from_filename float_decimal ''QCL-1-CC-1_x5_Formation'' = Fin 1 \<and>
   list_index (str_split ''QCL-1-CC-1_0.25_Formation'' CHR ''_'') 1 = Inr ''0.25'' \<and>
   float_decimal ''0.25'' = Some (Fin (1 / 4)) \<and>
   extract_mass_from_filename float_decimal ''QCL-1-CC-1_0.25_Formation'' = Fin (1 / 4)"
proof -
  have h1: "CHR ''_'' \<notin> set ''QCL-1-CC-1''" by simp
  have h2: "list_index (str_split ''QCL-1-CC-1_x5_Formation'' CHR ''_'') 1 = Inr ''x5''"
    by (simp add: list_index_def str_split_def)
  have h3: "float_decimal ''x5'' = None"
    by (simp add: float_decimal_def is_digit_def)
  have h4: "list_index (str_split ''QCL-1-CC-1_0.25_Formation'' CHR ''_'') 1 = Inr ''0.25''"
    by (simp add: list_index_def str_split_def)
  have h5: "float_decimal ''0.25'' = Some (Fin (1 / 4))"
    by code_simp
  have h6: "mass_token float_decimal ''QCL-1-CC-1_x5_Formation'' = Inl ValueError"
    using h2 h3 by (simp add: mass_token_def)
  from extract_mass_from_filename_default [of "''QCL-1-CC-1''" float_decimal]
       extract_mass_from_filename_default [of "''QCL-1-CC-1_x5_Formation''" float_decimal]
       extract_mass_from_filename_default [of "''QCL-1-CC-1_0.25_Formation''" float_decimal]
       h1 h2 h3 h4 h5 h6
  show ?thesis by blast
qed

subsection \<open>C2: retention of a cycle without discharge rows\<close>

text \<open>
  Claim C2 says that for a requested cycle \<open>n > 1\<close> without DISCHARGE rows the key
  \<open>Retention Cycle n (%)\<close> is absent from the result of
  \<open>Features.extract_capacities_for_cycles\<close>. The loop assigns the key for every requested
  cycle, and the maximum of the empty selection is \<open>nan\<close>: on \<open>capacity_rows\<close>, which has no
  row of cycle 3, and the dictionary its capacity extractions build, the key of cycle 3
  is present and bound to \<open>nan\<close>.
\<close>

theorem missing_cycle_retention_key_present:
  "extract_capacities_for_cycles (Some capacity_rows) capacity_features [3] =
     Inr (capacity_features(''Retention Cycle 3 (%)'' \<mapsto> NpF NaN)) \<and>
   (capacity_features(''Retention Cycle 3 (%)'' \<mapsto> NpF NaN)) ''Retention Cycle 3 (%)'' \<noteq> None"
proof -
  have n: "\<not> python_zero_divisor (NpF (Fin (375 / 2)))"
    by (simp add: python_zero_divisor_def)
  have m: "requested_capacity capacity_rows 3 = PyF NaN"
    using capacity_rows_no_cycle_3 by (rule requested_capacity_missing)
  have v: "retention_value (NpF (Fin (375 / 2))) (PyF NaN) = NpF NaN"
    by (simp add: retention_value_def np_round_NaN)
  show ?thesis
    using for_each_retention_ok [OF n, of capacity_rows "[3]" capacity_features]
    by (simp add: extract_capacities_for_cycles_def dict_get_def capacity_features_discharge
          m v retention_key_3)
qed

text \<open>
  Claim C2 as amended: when the dictionary holds the initial discharge capacity (the
  function raises KeyError otherwise), then for every requested cycle \<open>n\<close> without
  DISCHARGE rows the function returns a dictionary in which \<open>Retention Cycle n (%)\<close> is
  present and bound to \<open>nan\<close>; except when the stored capacity is a Python float whose
  thousandth is 0.0, where the division of the Python float \<open>nan\<close> by the Python float 0.0
  raises ZeroDivisionError. The exception does not arise after
  \<open>extract_initial_discharge_capacity\<close>, which stores a numpy scalar or the Python float
  \<open>nan\<close>.
\<close>

theorem missing_cycle_retention_is_nan:
  assumes "features ''Initial Discharge Capacity (mAh)'' = Some initial"
    and "n \<in> set cycles"
    and "\<not> (\<exists>r \<in> set df. step_type r = ''DISCHARGE'' \<and> cycle r = n)"
  shows "(if python_zero_divisor initial
          then extract_capacities_for_cycles (Some df) features cycles = Inl ZeroDivisionError
          else \<exists>f v. extract_capacities_for_cycles (Some df) features cycles = Inr f \<and>
                      f (retention_key n) = Some v \<and> num_val v = NaN) \<and>
         (\<forall>cloud f0 mass. extract_initial_discharge_capacity cloud f0 mass = Inr features \<longrightarrow>
            \<not> python_zero_divisor initial)"
proof (intro conjI allI impI)
  from assms(3) have m: "requested_capacity df n = PyF NaN" by (rule requested_capacity_missing)
  show "if python_zero_divisor initial
          then extract_capacities_for_cycles (Some df) features cycles = Inl ZeroDivisionError
          else \<exists>f v. extract_capacities_for_cycles (Some df) features cycles = Inr f \<and>
                      f (retention_key n) = Some v \<and> num_val v = NaN"
  proof (cases "python_zero_divisor initial")
    case True
    from for_each_retention_zero [OF True assms(2) m] assms(1) True show ?thesis
      by (simp add: extract_capacities_for_cycles_def dict_get_def)
  next
    case False
    let ?f = "fold (\<lambda>n f. f(retention_key n \<mapsto> retention_value initial (requested_capacity df n)))
            cycles features"
    have a: "extract_capacities_for_cycles (Some df) features cycles = Inr ?f"
      using for_each_retention_ok [OF False] assms(1)
      by (simp add: extract_capacities_for_cycles_def dict_get_def)
    have b: "?f (retention_key n) = Some (retention_value initial (requested_capacity df n))"
      using assms(2) by (rule fold_retention_lookup)
    have c: "num_val (retention_value initial (requested_capacity df n)) = NaN"
      by (simp only: m retention_value_missing)
    from a b c False show ?thesis by simp
  qed
next
  fix cloud f0 mass
  assume "extract_initial_discharge_capacity cloud f0 mass = Inr features"
  from this assms(1) show "\<not> python_zero_divisor initial"
    by (rule extracted_capacity_no_python_zero)
qed

text \<open>
  On \<open>capacity_rows\<close> and the requested cycles 2 and 3: with the dictionary of its capacity
  extractions the retention of cycle 3 is \<open>nan\<close>, and with a stored Python float 0.0 the
  function raises ZeroDivisionError.
\<close>

theorem missing_cycle_retention_is_nan_witness:
  "capacity_features ''Initial Discharge Capacity (mAh)'' = Some (NpF (Fin (375 / 2))) \<and>
   (3 :: int) \<in> set [2, 3] \<and>
   \<not> (\<exists>r \<in> set capacity_rows. step_type r = ''DISCHARGE'' \<and> cycle r = 3) \<and>
   \<not> python_zero_divisor (NpF (Fin (375 / 2))) \<and>
   (\<exists>f v. extract_capacities_for_cycles (Some capacity_rows) capacity_features [2, 3] = Inr f \<and>
           f (retention_key 3) = Some v \<and> num_val v = NaN) \<and>
   extract_initial_discharge_capacity (Some capacity_rows)
     [''Initial Charge Capacity (mAh)'' \<mapsto> NpF (Fin 250),
      ''Initial Specific Charge Capacity (mAh/g) '' \<mapsto> NpF (Fin 500)] (Fin (1 / 2)) =
     Inr capacity_features \<and>
   [''Initial Discharge Capacity (mAh)'' \<mapsto> PyF (Fin 0)] ''Initial Discharge Capacity (mAh)'' =
     Some (PyF (Fin 0)) \<and>
   python_zero_divisor (PyF (Fin 0)) \<and>
   extract_capacities_for_cycles (Some capacity_rows)
     [''Initial Discharge Capacity (mAh)'' \<mapsto> PyF (Fin 0)] [2, 3] = Inl ZeroDivisionError"
proof -
  have i: "(3 :: int) \<in> set [2, 3]" by simp
  have cd: "extract_initial_discharge_capacity (Some capacity_rows)
     [''Initial Charge Capacity (mAh)'' \<mapsto> NpF (Fin 250),
      ''Initial Specific Charge Capacity (mAh/g) '' \<mapsto> NpF (Fin 500)] (Fin (1 / 2)) =
     Inr capacity_features"
    unfolding capacity_features_def by (rule capacity_rows_discharge)
  have z: "python_zero_divisor (PyF (Fin 0))"
    by (simp add: python_zero_divisor_def fl_def)
  have k: "[''Initial Discharge Capacity (mAh)'' \<mapsto> PyF (Fin 0)] ''Initial Discharge Capacity (mAh)'' =
     Some (PyF (Fin 0))" by simp
  note t = missing_cycle_retention_is_nan
             [where features = capacity_features and initial = "NpF (Fin (375 / 2))" and n = 3
                and cycles = "[2, 3]" and df = capacity_rows,
              OF capacity_features_discharge i capacity_rows_no_cycle_3]
  from t [THEN conjunct2, rule_format, OF cd]
  have n': "\<not> python_zero_divisor (NpF (Fin (375 / 2)))" .
  have a': "\<exists>f v. extract_capacities_for_cycles (Some capacity_rows) capacity_features [2, 3] = Inr f \<and>
           f (retention_key 3) = Some v \<and> num_val v = NaN"
    using t [THEN conjunct1] n' by (simp only: if_False)
  note b = missing_cycle_retention_is_nan
             [where features = "[''Initial Discharge Capacity (mAh)'' \<mapsto> PyF (Fin 0)]"
                and initial = "PyF (Fin 0)" and n = 3 and cycles = "[2, 3]" and df = capacity_rows,
              OF k i capacity_rows_no_cycle_3, THEN conjunct1]
  have b': "extract_capacities_for_cycles (Some capacity_rows)
     [''Initial Discharge Capacity (mAh)'' \<mapsto> PyF (Fin 0)] [2, 3] = Inl ZeroDivisionError"
    using b z by (simp only: if_True)
  show ?thesis
    by (intro conjI) (fact capacity_features_discharge i capacity_rows_no_cycle_3 n' a' cd k z b')+
qed

subsection \<open>C3: cycle-to-cycle drift\<close>

text \<open>
  Claim C3: \<open>Features.extract_discharge_capacity_difference\<close> is a running computation
  whose baseline is the capacity of the cycle processed just before, and cycle 2 for the
  first requested cycle only. For every table, dictionary and list of requested cycles
  the function returns the dictionary updated, in the order of the list, with the change
  of each requested cycle against the cycle requested just before it (the first against
  cycle 2); when the requested cycles are distinct, the value stored for the \<open>i\<close>-th of
  them is the change of its capacity against the capacity of the \<open>(i-1)\<close>-th. For a table
  whose discharge capacities of cycles 2, 3 and 4 are 10, 9 and 9.5 and the requested
  cycles 2, 3, 4 the stored values are 0, -10 and \<open>(9.5 - 9) / (9 / 100)\<close> rounded to three
  decimals, the double nearest to 5.556; requesting the cycles 2 and 4 only, the value of
  cycle 4 is -5, computed against cycle 2.
\<close>

theorem drift_baseline_is_previous_requested_cycle:
  "extract_discharge_capacity_difference (Some df) features cycles =
     Inr (drift_updates (requested_capacity df) cycles features) \<and>
   (distinct cycles \<longrightarrow>
      (\<forall>i. i < length cycles \<longrightarrow>
         drift_updates (requested_capacity df) cycles features (difference_key (cycles ! i)) =
           Some (percent_change (requested_capacity df ((2 # cycles) ! i))
                                (requested_capacity df (cycles ! i))))) \<and>
   (cycle_discharge_capacity df 2 = NpF (Fin 10) \<and>
    cycle_discharge_capacity df 3 = NpF (Fin 9) \<and>
    cycle_discharge_capacity df 4 = NpF (Fin (19 / 2)) \<longrightarrow>
      extract_discharge_capacity_difference (Some df) features [2, 3, 4] =
        Inr (features(''Retention Difference for 2 (%)'' \<mapsto> NpF (Fin 0),
                      ''Retention Difference for 3 (%)'' \<mapsto> NpF (Fin (- 10)),
                      ''Retention Difference for 4 (%)'' \<mapsto> NpF (fl (5556 / 1000)))) \<and>
      percent_change (NpF (Fin 9)) (NpF (Fin (19 / 2))) = NpF (fl (5556 / 1000)) \<and>
      extract_discharge_capacity_difference (Some df) features [2, 4] =
        Inr (features(''Retention Difference for 2 (%)'' \<mapsto> NpF (Fin 0),
                      ''Retention Difference for 4 (%)'' \<mapsto> NpF (Fin (- 5)))))"
proof (intro conjI impI allI)
  show "extract_discharge_capacity_difference (Some df) features cycles =
     Inr (drift_updates (requested_capacity df) cycles features)"
    by (rule extract_discharge_capacity_difference_eq)
next
  fix i
  assume "distinct cycles" "i < length cycles"
  then show "drift_updates (requested_capacity df) cycles features (difference_key (cycles ! i)) =
           Some (percent_change (requested_capacity df ((2 # cycles) ! i))
                                (requested_capacity df (cycles ! i)))"
    by (rule drift_updates_lookup)
next
  assume "cycle_discharge_capacity df 2 = NpF (Fin 10) \<and>
    cycle_discharge_capacity df 3 = NpF (Fin 9) \<and>
    cycle_discharge_capacity df 4 = NpF (Fin (19 / 2))"
  then have c: "requested_capacity df 2 = NpF (Fin 10)" "requested_capacity df 3 = NpF (Fin 9)"
    "requested_capacity df 4 = NpF (Fin (19 / 2))"
    by (simp_all add: requested_capacity_def)
  show "extract_discharge_capacity_difference (Some df) features [2, 3, 4] =
        Inr (features(''Retention Difference for 2 (%)'' \<mapsto> NpF (Fin 0),
                      ''Retention Difference for 3 (%)'' \<mapsto> NpF (Fin (- 10)),
                      ''Retention Difference for 4 (%)'' \<mapsto> NpF (fl (5556 / 1000))))"
    by (simp add: extract_discharge_capacity_difference_eq drift_updates_def c difference_keys
          percent_change_examples)
  show "extract_discharge_capacity_difference (Some df) features [2, 4] =
        Inr (features(''Retention Difference for 2 (%)'' \<mapsto> NpF (Fin 0),
                      ''Retention Difference for 4 (%)'' \<mapsto> NpF (Fin (- 5))))"
    by (simp add: extract_discharge_capacity_difference_eq drift_updates_def c difference_keys
          percent_change_examples)
next
  show "percent_change (NpF (Fin 9)) (NpF (Fin (19 / 2))) = NpF (fl (5556 / 1000))"
    by (rule percent_change_examples)
qed

text \<open>
The table \<open>drift_rows\<close>, whose capacities of cycles 2, 3 and 4 are 10, 9 and 9.5.
\<close>

theorem drift_baseline_is_previous_requested_cycle_witness:
  "distinct [2, 3, 4 :: int] \<and> (2 :: nat) < length [2, 3, 4 :: int] \<and>
   drift_updates (requested_capacity drift_rows) [2, 3, 4] Map.empty
       (difference_key ([2, 3, 4] ! 2)) =
     Some (percent_change (requested_capacity drift_rows ((2 # [2, 3, 4]) ! 2))
                          (requested_capacity drift_rows ([2, 3, 4] ! 2))) \<and>
   cycle_discharge_capacity drift_rows 2 = NpF (Fin 10) \<and>
   cycle_discharge_capacity drift_rows 3 = NpF (Fin 9) \<and>
   cycle_discharge_capacity drift_rows 4 = NpF (Fin (19 / 2)) \<and>
   extract_discharge_capacity_difference (Some drift_rows) Map.empty [2, 3, 4] =
     Inr [''Retention Difference for 2 (%)'' \<mapsto> NpF (Fin 0),
          ''Retention Difference for 3 (%)'' \<mapsto> NpF (Fin (- 10)),
          ''Retention Difference for 4 (%)'' \<mapsto> NpF (fl (5556 / 1000))] \<and>
   extract_discharge_capacity_difference (Some drift_rows) Map.empty [2, 4] =
     Inr [''Retention Difference for 2 (%)'' \<mapsto> NpF (Fin 0),
          ''Retention Difference for 4 (%)'' \<mapsto> NpF (Fin (- 5))]"
proof -
  note t = drift_baseline_is_previous_requested_cycle [of drift_rows Map.empty "[2, 3, 4]"]
  have d: "distinct [2, 3, 4 :: int]" by simp
  have l: "(2 :: nat) < length [2, 3, 4 :: int]" by simp
  from t [THEN conjunct2, THEN conjunct1, rule_format, OF d l]
  have a: "drift_updates (requested_capacity drift_rows) [2, 3, 4] Map.empty
       (difference_key ([2, 3, 4] ! 2)) =
     Some (percent_change (requested_capacity drift_rows ((2 # [2, 3, 4]) ! 2))
                          (requested_capacity drift_rows ([2, 3, 4] ! 2)))" .
  have c: "cycle_discharge_capacity drift_rows 2 = NpF (Fin 10) \<and>
    cycle_discharge_capacity drift_rows 3 = NpF (Fin 9) \<and>
    cycle_discharge_capacity drift_rows 4 = NpF (Fin (19 / 2))"
    using drift_rows_capacities by simp
  from t [THEN conjunct2, THEN conjunct2, rule_format, OF c]
  have b: "extract_discharge_capacity_difference (Some drift_rows) Map.empty [2, 3, 4] =
     Inr [''Retention Difference for 2 (%)'' \<mapsto> NpF (Fin 0),
          ''Retention Difference for 3 (%)'' \<mapsto> NpF (Fin (- 10)),
          ''Retention Difference for 4 (%)'' \<mapsto> NpF (fl (5556 / 1000))] \<and>
      percent_change (NpF (Fin 9)) (NpF (Fin (19 / 2))) = NpF (fl (5556 / 1000)) \<and>
      extract_discharge_capacity_difference (Some drift_rows) Map.empty [2, 4] =
     Inr [''Retention Difference for 2 (%)'' \<mapsto> NpF (Fin 0),
          ''Retention Difference for 4 (%)'' \<mapsto> NpF (Fin (- 5))]" .
  from d l a c b show ?thesis by (intro conjI) (erule conjunct1 | erule conjunct2 | assumption | (drule conjunct2, erule conjunct1) | (drule conjunct2, erule conjunct2) | (drule conjunct2, drule conjunct2, erule conjunct2))+
qed

subsection \<open>C9: sample identifiers\<close>

text \<open>
  Claim C9 says that for a filename matched by the primary pattern,
  \<open>process_filenames_CC\<close> on a single filename returns the captured groups joined with
  the separator \<open>-\<close>. For a single filename the function returns \<open>match[0]\<close>, the whole
  matched text: for \<open>QCL-1-CC-12_0.5_Formation\<close> the groups are \<open>QCL-1-\<close> and \<open>CC-12\<close>,
  the result is \<open>QCL-1-CC-12\<close>, and the groups joined with \<open>-\<close> are \<open>QCL-1--CC-12\<close>
  (which is what the list branch returns).
\<close>

theorem process_filenames_CC_returns_whole_match:
  "match_CC [] ''QCL-1-CC-12_0.5_Formation'' = Some (''QCL-1-'', ''CC-12'') \<and>
   process_filenames_CC ''QCL-1-CC-12_0.5_Formation'' = Some ''QCL-1-CC-12'' \<and>
   join_groups ''-'' (''QCL-1-'', ''CC-12'') = ''QCL-1--CC-12'' \<and>
   process_filenames_CC_list [''QCL-1-CC-12_0.5_Formation''] = [''QCL-1--CC-12'']"
  by code_simp

text \<open>
  Claim C9 as amended: for a filename matched by the primary pattern, with groups \<open>g1\<close>
  and \<open>g2\<close>, \<open>process_filenames_CC\<close> on the single filename returns the whole matched text
  \<open>g1 @ g2\<close>, a prefix of the filename that ends with \<open>CC-\<close> and one or two digits, and
  this is the sample ID. If the primary pattern does not match, the sample ID is what the
  caller's fallback captures, a part of the filename followed by \<open>-CC\<close>; and if neither
  matches, the resolution raises IndexError in the caller.
\<close>

theorem sample_ID_resolution:
  "(\<forall>g1 g2. match_CC [] filename = Some (g1, g2) \<longrightarrow>
      process_filenames_CC filename = Some (g1 @ g2) \<and>
      resolve_sample_ID filename = Inr (g1 @ g2) \<and>
      prefix (g1 @ g2) filename \<and>
      (\<exists>ds. g2 = ''CC-'' @ ds \<and> ds \<noteq> [] \<and> length ds \<le> 2 \<and> list_all is_digit ds)) \<and>
   (match_CC [] filename = None \<longrightarrow>
      process_filenames_CC filename = None \<and>
      (\<forall>g. search_before_CC filename = Some g \<longrightarrow>
         resolve_sample_ID filename = Inr g \<and>
         (\<exists>pre post. filename = pre @ g @ ''-CC'' @ post)) \<and>
      (search_before_CC filename = None \<longrightarrow> resolve_sample_ID filename = Inl IndexError))"
proof -
  have a: "\<forall>g1 g2. match_CC [] filename = Some (g1, g2) \<longrightarrow>
      process_filenames_CC filename = Some (g1 @ g2) \<and>
      resolve_sample_ID filename = Inr (g1 @ g2) \<and>
      prefix (g1 @ g2) filename \<and>
      (\<exists>ds. g2 = ''CC-'' @ ds \<and> ds \<noteq> [] \<and> length ds \<le> 2 \<and> list_all is_digit ds)"
  proof (intro allI impI)
    fix g1 g2
    assume m: "match_CC [] filename = Some (g1, g2)"
    from match_CC_sound [OF m] obtain ds r where
      "filename = g1 @ g2 @ r" "g2 = ''CC-'' @ ds" "ds \<noteq> []" "length ds \<le> 2" "list_all is_digit ds"
      by auto
    moreover from this(1) have "prefix (g1 @ g2) filename" by (simp add: prefix_def)
    moreover from m have "process_filenames_CC filename = Some (g1 @ g2)"
      by (simp add: process_filenames_CC_def)
    moreover from this have "resolve_sample_ID filename = Inr (g1 @ g2)"
      by (simp add: resolve_sample_ID_def)
    ultimately show "process_filenames_CC filename = Some (g1 @ g2) \<and>
      resolve_sample_ID filename = Inr (g1 @ g2) \<and>
      prefix (g1 @ g2) filename \<and>
      (\<exists>ds. g2 = ''CC-'' @ ds \<and> ds \<noteq> [] \<and> length ds \<le> 2 \<and> list_all is_digit ds)"
      by blast
  qed
  have b: "match_CC [] filename = None \<longrightarrow>
      process_filenames_CC filename = None \<and>
      (\<forall>g. search_before_CC filename = Some g \<longrightarrow>
         resolve_sample_ID filename = Inr g \<and>
         (\<exists>pre post. filename = pre @ g @ ''-CC'' @ post)) \<and>
      (search_before_CC filename = None \<longrightarrow> resolve_sample_ID filename = Inl IndexError)"
    using search_before_CC_sound [of filename]
    by (simp add: process_filenames_CC_def resolve_sample_ID_def)
  from a b show ?thesis by blast
qed

text \<open>
A filename for each of the three cases.
\<close>

theorem sample_ID_resolution_witness:
  "match_CC [] ''QCL-1-CC-12_0.5_Formation'' = Some (''QCL-1-'', ''CC-12'') \<and>
   process_filenames_CC ''QCL-1-CC-12_0.5_Formation'' = Some ''QCL-1-CC-12'' \<and>
   resolve_sample_ID ''QCL-1-CC-12_0.5_Formation'' = Inr ''QCL-1-CC-12'' \<and>
   match_CC [] ''QCL-1-CC_0.5_Formation'' = None \<and>
   search_before_CC ''QCL-1-CC_0.5_Formation'' = Some ''QCL-1'' \<and>
   resolve_sample_ID ''QCL-1-CC_0.5_Formation'' = Inr ''QCL-1'' \<and>
   match_CC [] ''QCL-1_0.5_Formation'' = None \<and>
   search_before_CC ''QCL-1_0.5_Formation'' = None \<and>
   resolve_sample_ID ''QCL-1_0.5_Formation'' = Inl IndexError"
proof -
  have h1: "match_CC [] ''QCL-1-CC-12_0.5_Formation'' = Some (''QCL-1-'', ''CC-12'')" by code_simp
  have h2: "match_CC [] ''QCL-1-CC_0.5_Formation'' = None" by code_simp
  have h3: "search_before_CC ''QCL-1-CC_0.5_Formation'' = Some ''QCL-1''" by code_simp
  have h4: "match_CC [] ''QCL-1_0.5_Formation'' = None" by code_simp
  have h5: "search_before_CC ''QCL-1_0.5_Formation'' = None" by code_simp
  from sample_ID_resolution [of "''QCL-1-CC-12_0.5_Formation''"] h1
  have "process_filenames_CC ''QCL-1-CC-12_0.5_Formation'' = Some ''QCL-1-CC-12'' \<and>
        resolve_sample_ID ''QCL-1-CC-12_0.5_Formation'' = Inr ''QCL-1-CC-12''"
    by simp
  moreover from sample_ID_resolution [of "''QCL-1-CC_0.5_Formation''"] h2 h3
  have "resolve_sample_ID ''QCL-1-CC_0.5_Formation'' = Inr ''QCL-1''" by simp
  moreover from sample_ID_resolution [of "''QCL-1_0.5_Formation''"] h4 h5
  have "resolve_sample_ID ''QCL-1_0.5_Formation'' = Inl IndexError" by simp
  ultimately show ?thesis using h1 h2 h3 h4 h5 by blast
qed

subsection \<open>C4: rows and sample IDs of a batch\<close>

text \<open>
  Claim C4 says that in a batch of \<open>N\<close> files of which exactly one raises an error, the
  loop skips that file and goes on, and the summary table and the list of sample IDs both
  have \<open>N - 1\<close> entries, in lockstep. The \<open>if\<close>/\<open>elif\<close> on the protocol type has no \<open>else\<close>,
  and the answer typed at the prompt of \<open>get_protocol_type\<close> is not validated: a file
  without protocol marker whose answer is none of \<open>F\<close>, \<open>FC\<close>, \<open>CL\<close> raises nothing,
  appends no row and still appends its sample ID. In the batch of three files below the
  first has no sample ID (IndexError, caught and logged), the second is a formation file
  and the third has no protocol marker. With the answer \<open>X\<close> the run ends with one row and
  two sample IDs; with the answer \<open>F\<close> it ends with two rows and two sample IDs.
\<close>

theorem unclassified_file_breaks_lockstep:
  "map_sum id (\<lambda>st. (length (qc_sample_summary st), sample_ID_list st, logged st))
     (main_run example_env
        (Files [''A_1_Formation.mpr'', ''B-CC-1_1_Formation.mpr'', ''C-CC-3_0.5_Test.mpr''])
        [''X'']) =
     Inr (1, [''B-CC-1'', ''C-CC-3''],
          [Error_processing ''A_1_Formation'' IndexError,
           Extraction_finished ''B-CC-1_1_Formation'',
           Extraction_finished ''C-CC-3_0.5_Test'']) \<and>
   map_sum id (\<lambda>st. (length (qc_sample_summary st), sample_ID_list st, logged st))
     (main_run example_env
        (Files [''A_1_Formation.mpr'', ''B-CC-1_1_Formation.mpr'', ''C-CC-3_0.5_Test.mpr''])
        [''F'']) =
     Inr (2, [''B-CC-1'', ''C-CC-3''],
          [Error_processing ''A_1_Formation'' IndexError,
           Extraction_finished ''B-CC-1_1_Formation'',
           Extraction_finished ''C-CC-3_0.5_Test''])"
  by code_simp

subsection \<open>C7: files of open-circuit-voltage tests\<close>




end
